theory Spec2Isabelle
  imports Complex_Main
begin

section \<open>Errors and Python list access\<close>

text \<open>
  Every exception the modelled functions can raise is a value of \<open>error\<close>; a function
  that can raise returns \<open>error + 'a\<close>, with \<open>Inl\<close> for the exception.
\<close>

datatype error =
    KeyError string
  | IndexError
  | InputNotFound string string nat
  | NoDataFields string
  | UnexpectedDataType
  | InvalidEnumValue
  | UnsupportedAttributeType
  | MapTypesNotSupported
  | ElemTypeNotSet
  | UnicodeDecodeError
  | ReplacementArityError

definition bind_err :: "error + 'a \<Rightarrow> ('a \<Rightarrow> error + 'b) \<Rightarrow> error + 'b" where
  "bind_err r f = (case r of Inl e \<Rightarrow> Inl e | Inr v \<Rightarrow> f v)"

text \<open>\<open>xs[-1]\<close> and \<open>xs[-2]\<close>: Python raises IndexError on a list that is too short.\<close>

definition py_last :: "'a list \<Rightarrow> error + 'a" where
  "py_last xs = (if length xs < 1 then Inl IndexError else Inr (xs ! (length xs - 1)))"

definition py_second_last :: "'a list \<Rightarrow> error + 'a" where
  "py_second_last xs = (if length xs < 2 then Inl IndexError else Inr (xs ! (length xs - 2)))"

text \<open>\<open>xs[:-n]\<close> for \<open>n \<ge> 0\<close>: all but the last \<open>n\<close> elements; \<open>xs[:-0]\<close> is \<open>xs[:0]\<close>, the empty list.\<close>

definition py_drop_last :: "nat \<Rightarrow> 'a list \<Rightarrow> 'a list" where
  "py_drop_last n xs = (if n = 0 then [] else take (length xs - n) xs)"

text \<open>\<open>xs.pop(-2)\<close>: removes the last but one element, IndexError on fewer than two.\<close>

definition py_pop_second_last :: "'a list \<Rightarrow> error + 'a list" where
  "py_pop_second_last xs =
     (if length xs < 2 then Inl IndexError
      else Inr (take (length xs - 2) xs @ drop (length xs - 1) xs))"

section \<open>rewriter/broadcast\_to\_matmul.py: the guard \<open>check_if_need_reshape\<close>\<close>

text \<open>
  A bound value as the guard reads it: its static shape (\<open>None\<close> when unavailable) and its
  resolved constant array (\<open>None\<close> when unknown). The constant is a numpy array, with its own
  shape and its elements in row-major order, or some other object, which the guard tests
  for with \<open>isinstance\<close>.
\<close>

record ndarray =
  nd_shape :: "nat list"
  nd_data :: "int list"

datatype np_object = NdArray ndarray | NotNdArray

record ir_value =
  val_name :: string
  val_shape :: "int list option"
  value_as_np_array :: "np_object option"

type_synonym match_bindings = "string \<rightharpoonup> ir_value"

text \<open>\<open>shape_c.tolist()\<close> of a one-dimensional array is the list of its elements.\<close>

definition tolist :: "ndarray \<Rightarrow> int list" where
  "tolist arr = nd_data arr"

text \<open>
  The loop of step 1.c over \<open>enumerate(zip(reversed(...), reversed(...)))\<close>: \<open>None\<close> is the
  \<open>return False\<close> inside the loop, \<open>Some\<close> the value of \<open>broadcast_matmul_output_shape\<close>
  after it.
\<close>

fun broadcast_loop :: "nat \<Rightarrow> (int \<times> int) list \<Rightarrow> int list \<Rightarrow> int list option" where
  "broadcast_loop idx [] out = Some out"
| "broadcast_loop idx ((dim_from_a, dim_from_b) # rest) out =
     (if dim_from_a \<notin> {1, dim_from_b} then None
      else if idx > 0 then broadcast_loop (idx + 1) rest (max dim_from_a dim_from_b # out)
      else broadcast_loop (idx + 1) rest out)"

text \<open>
  Steps 1.a and 1.b: a one-dimensional input is checked against the other input and padded
  with a 1. The result is \<open>None\<close> for \<open>return False\<close>, else the new shape, its length and
  whether the padding took place.
\<close>

definition pad_input_a :: "int list \<Rightarrow> int list \<Rightarrow> error + (int list \<times> nat \<times> bool) option" where
  "pad_input_a input_a_shape input_b_shape =
     (if length input_a_shape < 2 then
        bind_err (py_last input_a_shape) (\<lambda>la.
        bind_err (py_second_last input_b_shape) (\<lambda>lb.
          if la \<noteq> lb then Inr None
          else Inr (Some (1 # input_a_shape, length (1 # input_a_shape), True))))
      else Inr (Some (input_a_shape, length input_a_shape, False)))"

definition pad_input_b :: "int list \<Rightarrow> int list \<Rightarrow> bool \<Rightarrow> error + (int list \<times> nat \<times> bool) option" where
  "pad_input_b input_a_shape input_b_shape mimic =
     (if length input_b_shape < 2 then
        bind_err (py_last input_b_shape) (\<lambda>lb.
        bind_err (py_last input_a_shape) (\<lambda>la.
          if lb \<noteq> la then Inr None
          else Inr (Some (input_b_shape @ [1], length (input_b_shape @ [1]), True))))
      else Inr (Some (input_b_shape, length input_b_shape, mimic)))"

text \<open>
  Steps 1.c and 2 up to the final comparison: the shape that the guard computes for
  \<open>MatMul(input_a, input_b)\<close>, \<open>None\<close> when it returns False on the way.
\<close>

definition broadcast_matmul_output_shape :: "int list \<Rightarrow> int list \<Rightarrow> error + int list option" where
  "broadcast_matmul_output_shape input_a_shape0 input_b_shape0 =
     bind_err (pad_input_a input_a_shape0 input_b_shape0) (\<lambda>ra.
       case ra of None \<Rightarrow> Inr None
       | Some (input_a_shape, dim_a, mimic_a) \<Rightarrow>
     bind_err (pad_input_b input_a_shape input_b_shape0 mimic_a) (\<lambda>rb.
       case rb of None \<Rightarrow> Inr None
       | Some (input_b_shape, dim_b, mimic_matmul_broadcast_behavior) \<Rightarrow>
     bind_err (py_last input_a_shape) (\<lambda>a_last.
     bind_err (py_second_last input_a_shape) (\<lambda>a_second_last.
     bind_err (py_last input_b_shape) (\<lambda>b_last.
       let input_a_shape_except_second_last_dim = py_drop_last 2 input_a_shape @ [a_last];
           input_b_shape_except_last_dim = py_drop_last 1 input_b_shape
       in case broadcast_loop 0
                 (zip (rev input_a_shape_except_second_last_dim)
                      (rev input_b_shape_except_last_dim))
                 [a_second_last, b_last] of
            None \<Rightarrow> Inr None
          | Some out1 \<Rightarrow>
              let (longer_shape, shorter_shape) =
                    (if dim_a > dim_b then (input_a_shape, input_b_shape)
                     else (input_b_shape, input_a_shape));
                  out2 = py_drop_last (length shorter_shape) longer_shape @ out1;
                  out3 = (if mimic_matmul_broadcast_behavior \<and> dim_b = 2
                          then py_drop_last 1 out2 else out2)
              in if mimic_matmul_broadcast_behavior \<and> dim_a = 2
                 then bind_err (py_pop_second_last out3) (\<lambda>out4. Inr (Some out4))
                 else Inr (Some out3))))))"

text \<open>
  The guard. The three bindings are read first (a missing key raises KeyError), then
  \<open>shape_c\<close> is tested, then the shapes of the inputs.
\<close>

definition lookup_binding :: "match_bindings \<Rightarrow> string \<Rightarrow> error + ir_value" where
  "lookup_binding match_bindings k =
     (case match_bindings k of None \<Rightarrow> Inl (KeyError k) | Some v \<Rightarrow> Inr v)"

definition compare_output_shape :: "int list \<Rightarrow> int list option \<Rightarrow> error + bool" where
  "compare_output_shape shape_c r =
     (case r of None \<Rightarrow> Inr False
      | Some out \<Rightarrow> if shape_c \<noteq> out then Inr False else Inr True)"

definition check_shapes :: "int list option \<Rightarrow> int list option \<Rightarrow> int list \<Rightarrow> error + bool" where
  "check_shapes input_a_shape input_b_shape shape_c =
     (if input_a_shape = None \<or> input_b_shape = None then Inr False
      else bind_err (broadcast_matmul_output_shape (the input_a_shape) (the input_b_shape))
             (compare_output_shape shape_c))"

definition check_if_need_reshape :: "match_bindings \<Rightarrow> error + bool" where
  "check_if_need_reshape match_bindings =
     bind_err (lookup_binding match_bindings ''input_a'') (\<lambda>input_a.
     bind_err (lookup_binding match_bindings ''input_b'') (\<lambda>input_b.
     bind_err (lookup_binding match_bindings ''shape_c'') (\<lambda>shape_c_value.
       case value_as_np_array shape_c_value of
         None \<Rightarrow> Inr False
       | Some NotNdArray \<Rightarrow> Inr False
       | Some (NdArray arr) \<Rightarrow>
           if length (nd_shape arr) \<noteq> 1 then Inr False
           else check_shapes (val_shape input_a) (val_shape input_b) (tolist arr))))"

section \<open>optimizer/\_\_init\_\_.py: the driver \<open>optimize\<close>\<close>

text \<open>
  The passes that \<open>optimize\<close> calls live in other modules; they are parameters of the
  model. A pass takes the model and returns it as the pass leaves it, or raises. The
  fields keep the names of the functions called; \<open>ByteSize\<close> is \<open>model.ByteSize()\<close>. The
  rewrite rules of the modules \<open>no_op\<close>, \<open>broadcast_to_matmul\<close>, \<open>gemm_to_matmul_add\<close>
  and \<open>cast_constant_of_shape\<close> are handed to \<open>rewriter.rewrite\<close> in this order.
  Logging is left out.
\<close>

record ('m, 'x, 'r) passes =
  ByteSize :: "'m \<Rightarrow> nat"
  infer_shapes :: "'m \<Rightarrow> 'x + 'm"
  inline_simple_functions :: "'m \<Rightarrow> 'x + 'm"
  fold_constants :: "string \<Rightarrow> bool \<Rightarrow> 'm \<Rightarrow> 'x + ('m \<times> bool)"
  remove_unused_nodes :: "'m \<Rightarrow> 'x + 'm"
  remove_unused_functions :: "'m \<Rightarrow> 'x + 'm"
  inline_functions_with_unused_outputs :: "'m \<Rightarrow> 'x + 'm"
  rewrite :: "'r list \<Rightarrow> 'm \<Rightarrow> 'x + 'm"
  no_op_rules :: "'r list"
  broadcast_to_matmul_rules :: "'r list"
  gemm_to_matmul_add_rule :: "'r"
  cast_constant_of_shape_rules :: "'r list"

text \<open>
  The calls of passes are the effects of \<open>optimize\<close>. A run returns, besides its value, the
  calls it made: which pass, the model it was called on, and the model it returned
  (\<open>None\<close> when it raised).
\<close>

datatype pass_name =
    InferShapes | InlineSimpleFunctions | FoldConstants | RemoveUnusedNodes
  | RemoveUnusedFunctions | InlineFunctionsWithUnusedOutputs | Rewrite

datatype 'm call = Call (call_pass_name: pass_name) (call_before: 'm) (call_after: "'m option")

type_synonym ('m, 'x, 'a) run = "'m call list \<times> ('x + 'a)"

definition bind_run :: "('m, 'x, 'a) run \<Rightarrow> ('a \<Rightarrow> ('m, 'x, 'b) run) \<Rightarrow> ('m, 'x, 'b) run" where
  "bind_run r f =
     (case snd r of
        Inl e \<Rightarrow> (fst r, Inl e)
      | Inr v \<Rightarrow> (fst r @ fst (f v), snd (f v)))"

definition call_pass :: "pass_name \<Rightarrow> ('m \<Rightarrow> 'x + 'm) \<Rightarrow> 'm \<Rightarrow> ('m, 'x, 'm) run" where
  "call_pass p f model =
     (case f model of
        Inl e \<Rightarrow> ([Call p model None], Inl e)
      | Inr model' \<Rightarrow> ([Call p model (Some model')], Inr model'))"

definition call_fold_constants ::
  "('m, 'x, 'r) passes \<Rightarrow> string \<Rightarrow> bool \<Rightarrow> 'm \<Rightarrow> ('m, 'x, 'm \<times> bool) run" where
  "call_fold_constants P external_data_folder onnx_shape_inference model =
     (case fold_constants P external_data_folder onnx_shape_inference model of
        Inl e \<Rightarrow> ([Call FoldConstants model None], Inl e)
      | Inr (model', modified) \<Rightarrow> ([Call FoldConstants model (Some model')], Inr (model', modified)))"

definition pattern_rewrite_rules :: "('m, 'x, 'r) passes \<Rightarrow> 'r list" where
  "pattern_rewrite_rules P =
     no_op_rules P @ broadcast_to_matmul_rules P @ [gemm_to_matmul_add_rule P]
       @ cast_constant_of_shape_rules P"

text \<open>The shape inference step at the head of the loop body.\<close>

definition shape_inference_step ::
  "('m, 'x, 'r) passes \<Rightarrow> bool \<Rightarrow> 'm \<Rightarrow> ('m, 'x, 'm) run" where
  "shape_inference_step P onnx_shape_inference model =
     (if onnx_shape_inference then
        (if ByteSize P model < 1024 * 1024 * 1024 * 2
         then call_pass InferShapes (infer_shapes P) model
         else ([], Inr model))
      else ([], Inr model))"

text \<open>
  One run of the loop body, in two parts: the passes up to \<open>fold_constants\<close>, whose result
  is the flag \<open>modified\<close>, and the passes after it.
\<close>

definition passes_after_folding :: "('m, 'x, 'r) passes \<Rightarrow> 'm \<Rightarrow> ('m, 'x, 'm) run" where
  "passes_after_folding P model3 =
     bind_run (call_pass RemoveUnusedNodes (remove_unused_nodes P) model3) (\<lambda>model4.
     bind_run (call_pass InlineSimpleFunctions (inline_simple_functions P) model4) (\<lambda>model5.
     bind_run (call_pass RemoveUnusedFunctions (remove_unused_functions P) model5) (\<lambda>model6.
     bind_run (call_pass InlineFunctionsWithUnusedOutputs
                 (inline_functions_with_unused_outputs P) model6) (\<lambda>model7.
     call_pass Rewrite (rewrite P (pattern_rewrite_rules P)) model7))))"

definition iteration ::
  "('m, 'x, 'r) passes \<Rightarrow> bool \<Rightarrow> string \<Rightarrow> 'm \<Rightarrow> ('m, 'x, 'm \<times> bool) run" where
  "iteration P onnx_shape_inference external_data_folder model0 =
     bind_run (shape_inference_step P onnx_shape_inference model0) (\<lambda>model1.
     bind_run (call_pass InlineSimpleFunctions (inline_simple_functions P) model1) (\<lambda>model2.
     bind_run (call_fold_constants P external_data_folder onnx_shape_inference model2) (\<lambda>folded.
     bind_run (passes_after_folding P (fst folded)) (\<lambda>model8.
       ([], Inr (model8, snd folded))))))"

text \<open>
  The loop \<open>for _ in range(num_iterations)\<close> with its \<open>break\<close>; the calls are kept per
  iteration, so the length of the first component is the number of iterations run.
\<close>

fun optimize_loop ::
  "('m, 'x, 'r) passes \<Rightarrow> bool \<Rightarrow> bool \<Rightarrow> string \<Rightarrow> nat \<Rightarrow> 'm
     \<Rightarrow> 'm call list list \<times> ('x + 'm)" where
  "optimize_loop P onnx_shape_inference stop_if_no_change external_data_folder 0 model =
     ([], Inr model)"
| "optimize_loop P onnx_shape_inference stop_if_no_change external_data_folder (Suc k) model =
     (case iteration P onnx_shape_inference external_data_folder model of
        (calls, Inl e) \<Rightarrow> ([calls], Inl e)
      | (calls, Inr (model', modified)) \<Rightarrow>
          if stop_if_no_change \<and> \<not> modified then ([calls], Inr model')
          else (case optimize_loop P onnx_shape_inference stop_if_no_change
                       external_data_folder k model' of
                  (later, r) \<Rightarrow> (calls # later, r)))"

text \<open>\<open>range(num_iterations)\<close> is empty for a count of zero or less.\<close>

definition optimize ::
  "('m, 'x, 'r) passes \<Rightarrow> 'm \<Rightarrow> int \<Rightarrow> bool \<Rightarrow> bool \<Rightarrow> string
     \<Rightarrow> 'm call list list \<times> ('x + 'm)" where
  "optimize P model num_iterations onnx_shape_inference stop_if_no_change external_data_folder =
     optimize_loop P onnx_shape_inference stop_if_no_change external_data_folder
       (nat num_iterations) model"

text \<open>The names the package exports, its \<open>__all__\<close>.\<close>

definition optimizer_all :: "string list" where
  "optimizer_all =
     [''fold_constants'', ''remove_unused_nodes'', ''optimize'', ''do_copy_propagation'',
      ''do_sequence_simplification'']"

text \<open>A call changed the model when the model it returned is not the one it was given.\<close>

definition unchanged :: "'m call \<Rightarrow> bool" where
  "unchanged c = (call_after c = Some (call_before c))"

text \<open>
  A small instance of the passes, used to run \<open>optimize\<close> on concrete models: the model is a
  number, its serialized size is 2 GiB per unit, \<open>fold_constants\<close> counts it down to zero
  and reports whether it did, and the other passes leave it as it is.
\<close>

definition example_passes :: "(nat, unit, unit) passes" where
  "example_passes =
     \<lparr>ByteSize = (\<lambda>m. m * 2147483648),
      infer_shapes = Inr,
      inline_simple_functions = Inr,
      fold_constants = (\<lambda>folder inference m. Inr (if m > 0 then (m - 1, True) else (m, False))),
      remove_unused_nodes = Inr,
      remove_unused_functions = Inr,
      inline_functions_with_unused_outputs = Inr,
      rewrite = (\<lambda>rules. Inr),
      no_op_rules = [],
      broadcast_to_matmul_rules = [],
      gemm_to_matmul_add_rule = (),
      cast_constant_of_shape_rules = []\<rparr>"

section \<open>ir/serde.py: tensors\<close>

text \<open>
  The codes of \<open>_enums.DataType\<close>, which follow \<open>onnx.TensorProto.DataType\<close>. The field
  \<open>data_type\<close> of a proto holds such a code; a code that the enumeration does not have is
  \<open>UnknownDataType\<close>, and converting it with \<open>_enums.DataType(...)\<close> raises ValueError.
\<close>

datatype data_type =
    DataType_UNDEFINED | DataType_FLOAT | DataType_UINT8 | DataType_INT8 | DataType_UINT16
  | DataType_INT16 | DataType_INT32 | DataType_INT64 | DataType_STRING | DataType_BOOL
  | DataType_FLOAT16 | DataType_DOUBLE | DataType_UINT32 | DataType_UINT64
  | DataType_COMPLEX64 | DataType_COMPLEX128 | DataType_BFLOAT16 | DataType_FLOAT8E4M3FN
  | DataType_FLOAT8E4M3FNUZ | DataType_FLOAT8E5M2 | DataType_FLOAT8E5M2FNUZ | DataType_UINT4
  | DataType_INT4 | UnknownDataType int

definition DataType :: "data_type \<Rightarrow> error + data_type" where
  "DataType code = (case code of UnknownDataType n \<Rightarrow> Inl InvalidEnumValue | _ \<Rightarrow> Inr code)"

datatype data_location = DEFAULT | EXTERNAL

text \<open>
  \<open>onnx.TensorProto\<close>. \<open>raw_data\<close> is an optional field (\<open>HasField\<close>), the other data
  fields are repeated ones. Floating point numbers are carried as reals and never
  computed with. The key-value entries of \<open>external_data\<close> are held as
  \<open>onnx.external_data_helper.ExternalDataInfo\<close> reads them: the location, and the offset
  and the length when they are given.
\<close>

record external_data_info =
  ext_location :: string
  ext_offset :: "int option"
  ext_length :: "int option"

record tensor_proto =
  tp_name :: string
  tp_doc_string :: string
  tp_data_type :: data_type
  tp_dims :: "int list"
  tp_data_location :: data_location
  tp_external_data :: external_data_info
  tp_raw_data :: "string option"
  tp_float_data :: "real list"
  tp_int32_data :: "int list"
  tp_string_data :: "string list"
  tp_int64_data :: "int list"
  tp_double_data :: "real list"
  tp_uint64_data :: "nat list"

text \<open>\<open>onnx.TensorProto()\<close>, the proto with no field set.\<close>

definition empty_tensor_proto :: tensor_proto where
  "empty_tensor_proto =
     \<lparr>tp_name = [], tp_doc_string = [], tp_data_type = DataType_UNDEFINED, tp_dims = [],
      tp_data_location = DEFAULT,
      tp_external_data = \<lparr>ext_location = [], ext_offset = None, ext_length = None\<rparr>,
      tp_raw_data = None, tp_float_data = [], tp_int32_data = [], tp_string_data = [],
      tp_int64_data = [], tp_double_data = [], tp_uint64_data = []\<rparr>"

text \<open>
  The tensors of the intermediate representation that deserialization builds: a
  \<open>TensorProtoTensor\<close> or one of its five subclasses, each keeping the proto, or a
  \<open>_core.ExternalTensor\<close>.
\<close>

datatype tensor_class =
    TensorProtoTensor | FloatDataTensor | Int32DataTensor | Int64DataTensor
  | DoubleDataTensor | UInt64DataTensor

record external_tensor =
  et_path :: string
  et_offset :: "int option"
  et_length :: "int option"
  et_dtype :: data_type
  et_name :: string
  et_shape :: "int list"
  et_doc_string :: string

datatype ir_tensor = ProtoTensor tensor_class tensor_proto | ExternalTensor external_tensor

text \<open>The class attributes \<open>compatible_types\<close>.\<close>

definition compatible_types :: "tensor_class \<Rightarrow> data_type set" where
  "compatible_types c =
     (case c of
        FloatDataTensor \<Rightarrow> {DataType_FLOAT, DataType_COMPLEX64}
      | Int32DataTensor \<Rightarrow>
          {DataType_INT32, DataType_INT16, DataType_INT8, DataType_INT4, DataType_UINT16,
           DataType_UINT8, DataType_UINT4, DataType_BOOL, DataType_FLOAT16, DataType_BFLOAT16,
           DataType_FLOAT8E4M3FN, DataType_FLOAT8E4M3FNUZ, DataType_FLOAT8E5M2,
           DataType_FLOAT8E5M2FNUZ}
      | Int64DataTensor \<Rightarrow> {DataType_INT64}
      | DoubleDataTensor \<Rightarrow> {DataType_DOUBLE, DataType_COMPLEX128}
      | UInt64DataTensor \<Rightarrow> {DataType_UINT64, DataType_UINT32}
      | TensorProtoTensor \<Rightarrow> UNIV)"

text \<open>
  The constructors: \<open>TensorProtoTensor(proto)\<close> accepts every proto, a subclass raises
  ValueError on a data type that is not among its compatible types.
\<close>

definition new_tensor :: "tensor_class \<Rightarrow> tensor_proto \<Rightarrow> error + ir_tensor" where
  "new_tensor c proto =
     (if c \<noteq> TensorProtoTensor \<and> tp_data_type proto \<notin> compatible_types c
      then Inl UnexpectedDataType
      else Inr (ProtoTensor c proto))"

text \<open>\<open>os.path.join\<close> of two POSIX paths.\<close>

definition os_path_join :: "string \<Rightarrow> string \<Rightarrow> string" where
  "os_path_join base_path location =
     (if location \<noteq> [] \<and> hd location = CHR ''/'' then location
      else if base_path = [] \<or> last base_path = CHR ''/'' then base_path @ location
      else base_path @ ''/'' @ location)"

definition deserialize_tensor :: "tensor_proto \<Rightarrow> string \<Rightarrow> error + ir_tensor" where
  "deserialize_tensor tensor base_path =
     (if tp_data_location tensor = EXTERNAL then
        bind_err (DataType (tp_data_type tensor)) (\<lambda>dtype.
          Inr (ExternalTensor
            \<lparr>et_path = os_path_join base_path (ext_location (tp_external_data tensor)),
             et_offset = ext_offset (tp_external_data tensor),
             et_length = ext_length (tp_external_data tensor),
             et_dtype = dtype,
             et_name = tp_name tensor,
             et_shape = tp_dims tensor,
             et_doc_string = tp_doc_string tensor\<rparr>))
      else if tp_raw_data tensor \<noteq> None then new_tensor TensorProtoTensor tensor
      else if tp_data_type tensor \<in> compatible_types FloatDataTensor
        then new_tensor FloatDataTensor tensor
      else if tp_data_type tensor \<in> compatible_types Int32DataTensor
        then new_tensor Int32DataTensor tensor
      else if tp_data_type tensor \<in> compatible_types Int64DataTensor
        then new_tensor Int64DataTensor tensor
      else if tp_data_type tensor \<in> compatible_types DoubleDataTensor
        then new_tensor DoubleDataTensor tensor
      else if tp_data_type tensor \<in> compatible_types UInt64DataTensor
        then new_tensor UInt64DataTensor tensor
      else Inl (NoDataFields (tp_name tensor)))"

text \<open>
  \<open>serialize_tensor_into\<close> on a fresh proto, that is \<open>serialize_tensor\<close>: a
  \<open>TensorProtoTensor\<close> of any class gives a copy of its proto; an external tensor gives
  the name, the doc string when it is not empty, the type, the dimensions and the
  entries of the external data.
\<close>

definition serialize_tensor :: "ir_tensor \<Rightarrow> tensor_proto" where
  "serialize_tensor from =
     (case from of
        ProtoTensor c raw \<Rightarrow> raw
      | ExternalTensor t \<Rightarrow>
          empty_tensor_proto
            \<lparr>tp_name := et_name t,
             tp_doc_string := et_doc_string t,
             tp_data_type := et_dtype t,
             tp_dims := et_shape t,
             tp_data_location := EXTERNAL,
             tp_external_data :=
               \<lparr>ext_location = et_path t, ext_offset = et_offset t,
                ext_length = et_length t\<rparr>\<rparr>)"

text \<open>The tensors the round trip of claim C10 is about, and the failing input.\<close>

definition data_fields_set :: "tensor_proto \<Rightarrow> nat" where
  "data_fields_set p =
     (case tp_raw_data p of None \<Rightarrow> 0 | Some b \<Rightarrow> 1)
     + (if tp_float_data p = [] then 0 else 1) + (if tp_int32_data p = [] then 0 else 1)
     + (if tp_string_data p = [] then 0 else 1) + (if tp_int64_data p = [] then 0 else 1)
     + (if tp_double_data p = [] then 0 else 1) + (if tp_uint64_data p = [] then 0 else 1)"

definition string_tensor_proto :: tensor_proto where
  "string_tensor_proto =
     empty_tensor_proto
       \<lparr>tp_name := ''labels'', tp_data_type := DataType_STRING, tp_dims := [2],
        tp_string_data := [''cat'', ''dog'']\<rparr>"

section \<open>ir/serde.py: types, values, nodes and graphs\<close>

subsection \<open>The protos\<close>

text \<open>
  \<open>onnx.TypeProto\<close> with its \<open>oneof value\<close>, and a dimension with its \<open>oneof value\<close>
  (\<open>dim_value\<close> or \<open>dim_param\<close>). Optional fields are options; \<open>None\<close> is a field that
  \<open>HasField\<close> reports as not set.
\<close>

datatype dimension_proto =
  DimensionProto (dp_value: "(int + string) option") (dp_denotation: "string option")

datatype type_proto = TypeProto (ty_denotation: "string option") (ty_value: type_proto_value)
and type_proto_value =
    Value_not_set
  | Tensor_type "data_type option" "dimension_proto list option"
  | Sparse_tensor_type "data_type option" "dimension_proto list option"
  | Sequence_type "type_proto option"
  | Optional_type "type_proto option"
  | Map_type

record value_info_proto =
  vi_name :: string
  vi_type :: type_proto

text \<open>
  The codes of \<open>_enums.AttributeType\<close>, which follow \<open>onnx.AttributeProto.AttributeType\<close>;
  \<open>_enums.AttributeType(...)\<close> raises ValueError on a code the enumeration does not have.
\<close>

datatype attribute_type =
    AttributeType_UNDEFINED | AttributeType_FLOAT | AttributeType_INT | AttributeType_STRING
  | AttributeType_TENSOR | AttributeType_GRAPH | AttributeType_FLOATS | AttributeType_INTS
  | AttributeType_STRINGS | AttributeType_TENSORS | AttributeType_GRAPHS
  | AttributeType_SPARSE_TENSOR | AttributeType_SPARSE_TENSORS | AttributeType_TYPE_PROTO
  | AttributeType_TYPE_PROTOS | UnknownAttributeType int

definition AttributeType :: "attribute_type \<Rightarrow> error + attribute_type" where
  "AttributeType code =
     (case code of UnknownAttributeType n \<Rightarrow> Inl InvalidEnumValue | _ \<Rightarrow> Inr code)"

text \<open>
  Attributes, graphs and nodes contain each other. A field that holds a message (\<open>t\<close>,
  \<open>g\<close>) always has a value, the empty message when it was not set. A byte string that
  is decoded (\<open>s\<close>, \<open>strings\<close>) is held as the text it decodes to, \<open>None\<close> when it is
  not valid UTF-8 and \<open>decode\<close> raises.
\<close>

datatype attribute_proto =
  AttributeProto
    (ap_name: string)
    (ap_doc_string: "string option")
    (ap_type: attribute_type)
    (ap_ref_attr_name: "string option")
    (ap_i: int)
    (ap_f: real)
    (ap_s: "string option")
    (ap_ints: "int list")
    (ap_floats: "real list")
    (ap_strings: "string option list")
    (ap_t: tensor_proto)
    (ap_tensors: "tensor_proto list")
    (ap_g: graph_proto)
    (ap_graphs: "graph_proto list")
and graph_proto =
  GraphProto
    (gp_name: "string option")
    (gp_doc_string: "string option")
    (gp_initializer: "tensor_proto list")
    (gp_input: "value_info_proto list")
    (gp_output: "value_info_proto list")
    (gp_value_info: "value_info_proto list")
    (gp_node: "node_proto list")
and node_proto =
  NodeProto
    (np_name: string)
    (np_domain: string)
    (np_op_type: string)
    (np_overload: string)
    (np_input: "string list")
    (np_output: "string list")
    (np_attribute: "attribute_proto list")
    (np_metadata_props: "(string \<times> string) list")

subsection \<open>The intermediate representation\<close>

datatype dimension = Dimension "(int + string) option" "string option"

datatype ir_type =
    TensorType data_type "string option"
  | SparseTensorType data_type "string option"
  | SequenceType ir_type "string option"
  | OptionalType ir_type "string option"

text \<open>
  A \<open>_core.Value\<close> is an object that several places refer to and that is changed after it
  was made (its name, shape, type and constant). The values live in a store, a list
  indexed by the references; a reference is what a scope, a node input or a graph output
  holds. \<open>v_producer\<close> is the name of the producing node and the index of the output;
  inputs and initializers have none.
\<close>

record core_value =
  v_name :: "string option"
  v_shape :: "dimension list option"
  v_type :: "ir_type option"
  v_const_value :: "ir_tensor option"
  v_producer :: "(string \<times> nat) option"

type_synonym value_ref = nat

datatype ir_attr =
    RefAttr string string attribute_type "string option"
  | AttrInt64 string int "string option"
  | AttrFloat32 string real "string option"
  | AttrString string string "string option"
  | AttrInt64s string "int list" "string option"
  | AttrFloat32s string "real list" "string option"
  | AttrStrings string "string list" "string option"
  | AttrTensor string ir_tensor "string option"
  | AttrGraph string ir_graph "string option"
  | AttrTensors string "ir_tensor list" "string option"
  | AttrGraphs string "ir_graph list" "string option"
and ir_graph =
  Graph
    (g_inputs: "value_ref list")
    (g_outputs: "value_ref list")
    (g_nodes: "ir_node list")
    (g_initializers: "ir_tensor list")
    (g_doc_string: "string option")
    (g_name: "string option")
and ir_node =
  Node
    (n_domain: string)
    (n_op_type: string)
    (n_inputs: "value_ref option list")
    (n_attributes: "ir_attr list")
    (n_overload: string)
    (n_outputs: "value_ref list")
    (n_name: string)
    (n_metadata_props: "(string \<times> string) list")

text \<open>
  A Python dictionary is an association list with at most one pair per key: a write
  replaces the value of a key in place or adds the pair at the end.
\<close>

type_synonym ('k, 'v) dict = "('k \<times> 'v) list"

fun dict_set :: "'k \<Rightarrow> 'v \<Rightarrow> ('k, 'v) dict \<Rightarrow> ('k, 'v) dict" where
  "dict_set k v [] = [(k, v)]"
| "dict_set k v ((k', v') # d) = (if k = k' then (k, v) # d else (k', v') # dict_set k v d)"

definition dict_of :: "('k \<times> 'v) list \<Rightarrow> ('k, 'v) dict" where
  "dict_of kvs = fold (\<lambda>(k, v). dict_set k v) kvs []"

text \<open>
  The state of a deserialization: the store of values and the stack \<open>scoped_values\<close>,
  one dictionary from names to values per graph being deserialized, the innermost last.
\<close>

record serde_state =
  store :: "core_value list"
  scoped_values :: "(string, value_ref) dict list"

definition new_value :: "core_value \<Rightarrow> serde_state \<Rightarrow> value_ref \<times> serde_state" where
  "new_value v st = (length (store st), st\<lparr>store := store st @ [v]\<rparr>)"

definition update_value :: "value_ref \<Rightarrow> (core_value \<Rightarrow> core_value) \<Rightarrow> serde_state \<Rightarrow> serde_state" where
  "update_value r f st = st\<lparr>store := (store st)[r := f (store st ! r)]\<rparr>"

subsection \<open>Types and shapes\<close>

definition deserialize_dimension :: "dimension_proto \<Rightarrow> dimension" where
  "deserialize_dimension proto =
     (case dp_value proto of
        Some value \<Rightarrow> Dimension (Some value) (dp_denotation proto)
      | None \<Rightarrow> Dimension None None)"

definition deserialize_shape_proto :: "dimension_proto list option \<Rightarrow> dimension list option" where
  "deserialize_shape_proto shape_proto = map_option (map deserialize_dimension) shape_proto"

fun deserialize_type_proto_for_shape :: "type_proto \<Rightarrow> error + dimension list option" where
  "deserialize_type_proto_for_shape (TypeProto denotation (Tensor_type elem_type shape_proto)) =
     Inr (deserialize_shape_proto shape_proto)"
| "deserialize_type_proto_for_shape (TypeProto denotation (Sparse_tensor_type elem_type shape_proto)) =
     Inr (deserialize_shape_proto shape_proto)"
| "deserialize_type_proto_for_shape (TypeProto denotation (Sequence_type None)) = Inr None"
| "deserialize_type_proto_for_shape (TypeProto denotation (Sequence_type (Some elem_type))) =
     deserialize_type_proto_for_shape elem_type"
| "deserialize_type_proto_for_shape (TypeProto denotation (Optional_type None)) = Inr None"
| "deserialize_type_proto_for_shape (TypeProto denotation (Optional_type (Some elem_type))) =
     deserialize_type_proto_for_shape elem_type"
| "deserialize_type_proto_for_shape (TypeProto denotation Map_type) = Inl MapTypesNotSupported"
| "deserialize_type_proto_for_shape (TypeProto denotation Value_not_set) = Inr None"

fun deserialize_type_proto_for_type :: "type_proto \<Rightarrow> error + ir_type option" where
  "deserialize_type_proto_for_type (TypeProto denotation (Tensor_type None shape_proto)) = Inr None"
| "deserialize_type_proto_for_type (TypeProto denotation (Tensor_type (Some elem_type) shape_proto)) =
     bind_err (DataType elem_type) (\<lambda>dtype. Inr (Some (TensorType dtype denotation)))"
| "deserialize_type_proto_for_type (TypeProto denotation (Sparse_tensor_type None shape_proto)) =
     Inr None"
| "deserialize_type_proto_for_type
     (TypeProto denotation (Sparse_tensor_type (Some elem_type) shape_proto)) =
     bind_err (DataType elem_type) (\<lambda>dtype. Inr (Some (SparseTensorType dtype denotation)))"
| "deserialize_type_proto_for_type (TypeProto denotation (Sequence_type None)) = Inl ElemTypeNotSet"
| "deserialize_type_proto_for_type (TypeProto denotation (Sequence_type (Some elem_type))) =
     bind_err (deserialize_type_proto_for_type elem_type) (\<lambda>nested_type.
       case nested_type of
         None \<Rightarrow> Inl ElemTypeNotSet
       | Some t \<Rightarrow> Inr (Some (SequenceType t denotation)))"
| "deserialize_type_proto_for_type (TypeProto denotation (Optional_type None)) = Inl ElemTypeNotSet"
| "deserialize_type_proto_for_type (TypeProto denotation (Optional_type (Some elem_type))) =
     bind_err (deserialize_type_proto_for_type elem_type) (\<lambda>nested_type.
       case nested_type of
         None \<Rightarrow> Inl ElemTypeNotSet
       | Some t \<Rightarrow> Inr (Some (OptionalType t denotation)))"
| "deserialize_type_proto_for_type (TypeProto denotation Map_type) = Inl MapTypesNotSupported"
| "deserialize_type_proto_for_type (TypeProto denotation Value_not_set) = Inr None"

text \<open>
  \<open>deserialize_value_info_proto(proto, value)\<close> on a value that is given: the shape is
  computed and stored, then the type.
\<close>

definition deserialize_value_info_proto ::
  "value_info_proto \<Rightarrow> value_ref \<Rightarrow> serde_state \<Rightarrow> error + serde_state" where
  "deserialize_value_info_proto proto r st =
     bind_err (deserialize_type_proto_for_shape (vi_type proto)) (\<lambda>shape.
     bind_err (deserialize_type_proto_for_type (vi_type proto)) (\<lambda>type.
       Inr (update_value r (\<lambda>v. v\<lparr>v_shape := shape, v_type := type\<rparr>) st)))"

subsection \<open>Nodes, attributes and graphs\<close>

text \<open>
  The first loop of \<open>_deserialize_node\<close>: an empty name is a missing input, any other name
  is looked up in the scopes from the innermost outwards, and a name that no scope has
  raises ValueError with the name, the node and the depth of the stack.
\<close>

fun find_value :: "(string, value_ref) dict list \<Rightarrow> string \<Rightarrow> value_ref option" where
  "find_value [] name = None"
| "find_value (values # outer) name =
     (case map_of values name of
        Some value \<Rightarrow> Some value
      | None \<Rightarrow> find_value outer name)"

fun resolve_inputs ::
  "string \<Rightarrow> (string, value_ref) dict list \<Rightarrow> string list \<Rightarrow> error + value_ref option list" where
  "resolve_inputs node_name scoped [] = Inr []"
| "resolve_inputs node_name scoped (name # names) =
     (if name = [] then
        bind_err (resolve_inputs node_name scoped names) (\<lambda>node_inputs. Inr (None # node_inputs))
      else
        (case find_value (rev scoped) name of
           None \<Rightarrow> Inl (InputNotFound name node_name (length scoped))
         | Some value \<Rightarrow>
             bind_err (resolve_inputs node_name scoped names) (\<lambda>node_inputs.
               Inr (Some value # node_inputs))))"

text \<open>
  The outputs that the constructor of \<open>_core.Node\<close> makes, one value per output with the
  node as its producer, and the second loop of \<open>_deserialize_node\<close>, which names each
  output, reads its value info and enters it into \<open>scoped_values[-1]\<close> (IndexError on an
  empty stack).
\<close>

fun new_outputs :: "string \<Rightarrow> nat \<Rightarrow> nat \<Rightarrow> serde_state \<Rightarrow> value_ref list \<times> serde_state" where
  "new_outputs node_name i 0 st = ([], st)"
| "new_outputs node_name i (Suc n) st =
     (let (r, st1) = new_value \<lparr>v_name = None, v_shape = None, v_type = None,
                                 v_const_value = None, v_producer = Some (node_name, i)\<rparr> st;
          (rs, st2) = new_outputs node_name (Suc i) n st1
      in (r # rs, st2))"

definition set_in_innermost :: "string \<Rightarrow> value_ref \<Rightarrow> serde_state \<Rightarrow> error + serde_state" where
  "set_in_innermost name value st =
     (if scoped_values st = [] then Inl IndexError
      else Inr (st\<lparr>scoped_values :=
                    butlast (scoped_values st) @ [dict_set name value (last (scoped_values st))]\<rparr>))"

fun register_outputs ::
  "(string, value_info_proto) dict \<Rightarrow> (string \<times> value_ref) list \<Rightarrow> serde_state
     \<Rightarrow> error + serde_state" where
  "register_outputs value_info [] st = Inr st"
| "register_outputs value_info ((output, value) # rest) st =
     bind_err
       (case map_of value_info output of
          Some info \<Rightarrow>
            deserialize_value_info_proto info value
              (update_value value (\<lambda>v. v\<lparr>v_name := Some output\<rparr>) st)
        | None \<Rightarrow> Inr (update_value value (\<lambda>v. v\<lparr>v_name := Some output\<rparr>) st))
       (\<lambda>st1. bind_err (set_in_innermost output value st1) (register_outputs value_info rest))"

text \<open>The parts of \<open>_deserialize_graph\<close> before and after its nodes.\<close>

fun new_inputs :: "value_info_proto list \<Rightarrow> serde_state \<Rightarrow> value_ref list \<times> serde_state" where
  "new_inputs [] st = ([], st)"
| "new_inputs (info # infos) st =
     (let (r, st1) = new_value \<lparr>v_name = Some (vi_name info), v_shape = None, v_type = None,
                                 v_const_value = None, v_producer = None\<rparr> st;
          (rs, st2) = new_inputs infos st1
      in (r # rs, st2))"

fun deserialize_input_infos ::
  "(value_info_proto \<times> value_ref) list \<Rightarrow> serde_state \<Rightarrow> error + serde_state" where
  "deserialize_input_infos [] st = Inr st"
| "deserialize_input_infos ((info, value) # rest) st =
     bind_err (deserialize_value_info_proto info value st) (deserialize_input_infos rest)"

fun deserialize_tensors :: "tensor_proto list \<Rightarrow> error + ir_tensor list" where
  "deserialize_tensors [] = Inr []"
| "deserialize_tensors (t # ts) =
     bind_err (deserialize_tensor t []) (\<lambda>tensor.
     bind_err (deserialize_tensors ts) (\<lambda>tensors. Inr (tensor # tensors)))"

definition tensor_name :: "ir_tensor \<Rightarrow> string" where
  "tensor_name t = (case t of ProtoTensor c proto \<Rightarrow> tp_name proto | ExternalTensor e \<Rightarrow> et_name e)"

definition tensor_shape :: "ir_tensor \<Rightarrow> dimension list" where
  "tensor_shape t =
     map (\<lambda>d. Dimension (Some (Inl d)) None)
       (case t of ProtoTensor c proto \<Rightarrow> tp_dims proto | ExternalTensor e \<Rightarrow> et_shape e)"

definition tensor_dtype :: "ir_tensor \<Rightarrow> error + data_type" where
  "tensor_dtype t =
     (case t of
        ProtoTensor c proto \<Rightarrow> DataType (tp_data_type proto)
      | ExternalTensor e \<Rightarrow> Inr (et_dtype e))"

fun add_initializers :: "ir_tensor list \<Rightarrow> serde_state \<Rightarrow> error + serde_state" where
  "add_initializers [] st = Inr st"
| "add_initializers (initializer # rest) st =
     (case map_of (last (scoped_values st)) (tensor_name initializer) of
        Some value \<Rightarrow>
          add_initializers rest
            (update_value value (\<lambda>v. v\<lparr>v_const_value := Some initializer\<rparr>) st)
      | None \<Rightarrow>
          bind_err (tensor_dtype initializer) (\<lambda>dtype.
            let (initializer_value, st1) =
                  new_value \<lparr>v_name = Some (tensor_name initializer),
                             v_shape = Some (tensor_shape initializer),
                             v_type = Some (TensorType dtype None),
                             v_const_value = Some initializer,
                             v_producer = None\<rparr> st
            in bind_err (set_in_innermost (tensor_name initializer) initializer_value st1)
                 (add_initializers rest)))"

fun deserialize_outputs ::
  "value_info_proto list \<Rightarrow> serde_state \<Rightarrow> error + (value_ref list \<times> serde_state)" where
  "deserialize_outputs [] st = Inr ([], st)"
| "deserialize_outputs (info # infos) st =
     (case map_of (last (scoped_values st)) (vi_name info) of
        None \<Rightarrow> Inl (KeyError (vi_name info))
      | Some value \<Rightarrow>
          bind_err (deserialize_value_info_proto info value st) (\<lambda>st1.
          bind_err (deserialize_outputs infos st1) (\<lambda>(outputs, st2).
            Inr (value # outputs, st2))))"

fun decode_strings :: "string option list \<Rightarrow> error + string list" where
  "decode_strings [] = Inr []"
| "decode_strings (None # rest) = Inl UnicodeDecodeError"
| "decode_strings (Some s # rest) = bind_err (decode_strings rest) (\<lambda>ss. Inr (s # ss))"

text \<open>
  \<open>_deserialize_graph\<close>, \<open>_deserialize_node\<close> and \<open>_deserialize_attribute\<close> (an Isabelle name
  cannot begin with an underscore: they are \<open>priv_...\<close> here), with the list comprehensions
  over nodes, attributes and graphs. Each takes the state and returns the new one. In
  \<open>_deserialize_graph\<close> the dictionary \<open>values\<close> is the one pushed on the stack, which the
  nodes leave on top.
\<close>

fun priv_deserialize_graph :: "graph_proto \<Rightarrow> serde_state \<Rightarrow> error + (ir_graph \<times> serde_state)"
and deserialize_nodes ::
  "node_proto list \<Rightarrow> (string, value_info_proto) dict \<Rightarrow> serde_state
     \<Rightarrow> error + (ir_node list \<times> serde_state)"
and priv_deserialize_node ::
  "node_proto \<Rightarrow> (string, value_info_proto) dict \<Rightarrow> serde_state
     \<Rightarrow> error + (ir_node \<times> serde_state)"
and deserialize_attributes ::
  "attribute_proto list \<Rightarrow> serde_state \<Rightarrow> error + (ir_attr list \<times> serde_state)"
and priv_deserialize_attribute ::
  "attribute_proto \<Rightarrow> serde_state \<Rightarrow> error + (ir_attr \<times> serde_state)"
and deserialize_graphs ::
  "graph_proto list \<Rightarrow> serde_state \<Rightarrow> error + (ir_graph list \<times> serde_state)"
where
  "priv_deserialize_graph (GraphProto name doc_string initializer input output value_info node) st =
     bind_err (deserialize_tensors initializer) (\<lambda>initializers.
     bind_err (deserialize_input_infos (zip input (fst (new_inputs input st)))
                 (snd (new_inputs input st))) (\<lambda>st1.
     bind_err (add_initializers initializers
                 (st1\<lparr>scoped_values := scoped_values st1
                    @ [dict_of (zip (map vi_name input) (fst (new_inputs input st)))]\<rparr>)) (\<lambda>st2.
     bind_err (deserialize_nodes node (dict_of (map (\<lambda>info. (vi_name info, info)) value_info)) st2)
       (\<lambda>(nodes, st3).
     bind_err (deserialize_outputs output st3) (\<lambda>(outputs, st4).
       Inr (Graph (fst (new_inputs input st)) outputs nodes initializers doc_string name,
            st4\<lparr>scoped_values := butlast (scoped_values st4)\<rparr>))))))"
| "deserialize_nodes [] value_info st = Inr ([], st)"
| "deserialize_nodes (proto # protos) value_info st =
     bind_err (priv_deserialize_node proto value_info st) (\<lambda>(node, st1).
     bind_err (deserialize_nodes protos value_info st1) (\<lambda>(nodes, st2).
       Inr (node # nodes, st2)))"
| "priv_deserialize_node
     (NodeProto name domain op_type overload input output attribute metadata_props) value_info st =
     bind_err (resolve_inputs name (scoped_values st) input) (\<lambda>node_inputs.
     bind_err (deserialize_attributes attribute st) (\<lambda>(attributes, st1).
     bind_err (register_outputs value_info
                 (zip output (fst (new_outputs name 0 (length output) st1)))
                 (snd (new_outputs name 0 (length output) st1))) (\<lambda>st2.
       Inr (Node domain op_type node_inputs attributes overload
              (fst (new_outputs name 0 (length output) st1)) name (dict_of metadata_props),
            st2))))"
| "deserialize_attributes [] st = Inr ([], st)"
| "deserialize_attributes (proto # protos) st =
     bind_err (priv_deserialize_attribute proto st) (\<lambda>(attr, st1).
     bind_err (deserialize_attributes protos st1) (\<lambda>(attrs, st2).
       Inr (attr # attrs, st2)))"
| "priv_deserialize_attribute
     (AttributeProto name doc_string type ref_attr_name i f s ints floats strings t tensors g graphs)
     st =
     bind_err (AttributeType type) (\<lambda>attr_type.
       if ref_attr_name \<noteq> None \<and> ref_attr_name \<noteq> Some []
         then Inr (RefAttr name (the ref_attr_name) attr_type doc_string, st)
       else if attr_type = AttributeType_INT then Inr (AttrInt64 name i doc_string, st)
       else if attr_type = AttributeType_FLOAT then Inr (AttrFloat32 name f doc_string, st)
       else if attr_type = AttributeType_STRING then
         (case s of
            None \<Rightarrow> Inl UnicodeDecodeError
          | Some text \<Rightarrow> Inr (AttrString name text doc_string, st))
       else if attr_type = AttributeType_INTS then Inr (AttrInt64s name ints doc_string, st)
       else if attr_type = AttributeType_FLOATS then Inr (AttrFloat32s name floats doc_string, st)
       else if attr_type = AttributeType_STRINGS then
         bind_err (decode_strings strings) (\<lambda>texts. Inr (AttrStrings name texts doc_string, st))
       else if attr_type = AttributeType_TENSOR then
         bind_err (deserialize_tensor t []) (\<lambda>tensor. Inr (AttrTensor name tensor doc_string, st))
       else if attr_type = AttributeType_GRAPH then
         bind_err (priv_deserialize_graph g st) (\<lambda>(graph, st1).
           Inr (AttrGraph name graph doc_string, st1))
       else if attr_type = AttributeType_TENSORS then
         bind_err (deserialize_tensors tensors) (\<lambda>ts. Inr (AttrTensors name ts doc_string, st))
       else if attr_type = AttributeType_GRAPHS then
         bind_err (deserialize_graphs graphs st) (\<lambda>(gs, st1).
           Inr (AttrGraphs name gs doc_string, st1))
       else Inl UnsupportedAttributeType)"
| "deserialize_graphs [] st = Inr ([], st)"
| "deserialize_graphs (proto # protos) st =
     bind_err (priv_deserialize_graph proto st) (\<lambda>(graph, st1).
     bind_err (deserialize_graphs protos st1) (\<lambda>(graphs, st2).
       Inr (graph # graphs, st2)))"

text \<open>The public entry points start from an empty stack.\<close>

definition initial_state :: serde_state where
  "initial_state = \<lparr>store = [], scoped_values = []\<rparr>"

definition deserialize_graph :: "graph_proto \<Rightarrow> error + (ir_graph \<times> serde_state)" where
  "deserialize_graph proto = priv_deserialize_graph proto initial_state"

definition deserialize_node :: "node_proto \<Rightarrow> error + (ir_node \<times> serde_state)" where
  "deserialize_node proto = priv_deserialize_node proto [] initial_state"

text \<open>What the first loop of \<open>_deserialize_node\<close> makes of one input name.\<close>

definition resolved :: "(string, value_ref) dict list \<Rightarrow> string \<Rightarrow> value_ref option" where
  "resolved scoped name = (if name = [] then None else find_value (rev scoped) name)"

text \<open>
  An example: a graph \<open>main\<close> with the input \<open>x\<close> and two nodes. The node \<open>if\<close> has the
  subgraph \<open>then_branch\<close>, whose node \<open>inner\<close> reads \<open>x\<close> (a value of the enclosing graph)
  and an empty input, and defines \<open>y\<close>. The node \<open>late\<close> of \<open>main\<close> reads \<open>y\<close>.
  \<open>example_outer_state\<close> is a state with one scope, in which \<open>x\<close> is defined.
\<close>

definition no_type :: type_proto where
  "no_type = TypeProto None Value_not_set"

definition example_inner_node :: node_proto where
  "example_inner_node = NodeProto ''inner'' [] ''Identity'' [] [''x'', []] [''y''] [] []"

definition example_inner_graph :: graph_proto where
  "example_inner_graph =
     GraphProto (Some ''then_branch'') None [] [] [\<lparr>vi_name = ''y'', vi_type = no_type\<rparr>] []
       [example_inner_node]"

definition example_late_node :: node_proto where
  "example_late_node = NodeProto ''late'' [] ''Identity'' [] [''y''] [''z''] [] []"

definition example_if_node :: node_proto where
  "example_if_node =
     NodeProto ''if'' [] ''If'' [] [''x''] [''w'']
       [AttributeProto ''then_branch'' None AttributeType_GRAPH None 0 0 None [] [] []
          empty_tensor_proto [] example_inner_graph []] []"

definition example_outer_graph :: graph_proto where
  "example_outer_graph =
     GraphProto (Some ''main'') None [] [\<lparr>vi_name = ''x'', vi_type = no_type\<rparr>]
       [\<lparr>vi_name = ''z'', vi_type = no_type\<rparr>] [] [example_if_node, example_late_node]"

definition example_value :: "string \<Rightarrow> (string \<times> nat) option \<Rightarrow> core_value" where
  "example_value name producer =
     \<lparr>v_name = Some name, v_shape = None, v_type = None, v_const_value = None,
      v_producer = producer\<rparr>"

definition example_outer_state :: serde_state where
  "example_outer_state = \<lparr>store = [example_value ''x'' None], scoped_values = [[(''x'', 0)]]\<rparr>"

text \<open>
  Two states have the same outer scopes when their stacks are equally deep and agree on
  every dictionary but the innermost.
\<close>

definition same_outer_scopes :: "serde_state \<Rightarrow> serde_state \<Rightarrow> bool" where
  "same_outer_scopes st st' =
     (length (scoped_values st') = length (scoped_values st)
      \<and> butlast (scoped_values st') = butlast (scoped_values st))"

text \<open>
  The dictionary \<open>values\<close> of \<open>_deserialize_graph\<close> after \<open>_deserialize_node\<close> has made
  \<open>nodes\<close> of \<open>protos\<close>: the second loop of \<open>_deserialize_node\<close> enters every output of a
  node under its name (\<open>scoped_values[-1][output] = value\<close>), node after node.
\<close>

definition own_scope ::
  "(string, value_ref) dict \<Rightarrow> node_proto list \<Rightarrow> ir_node list \<Rightarrow> (string, value_ref) dict" where
  "own_scope values protos nodes =
     fold (\<lambda>(proto, node). fold (\<lambda>(output, value). dict_set output value)
                               (zip (np_output proto) (n_outputs node)))
       (zip protos nodes) values"

text \<open>
  A second example: the subgraph \<open>else_branch\<close> with the input \<open>u\<close>. Its node \<open>first\<close> reads
  \<open>x\<close>, which only the enclosing graph defines, and defines an \<open>x\<close> of its own; its node
  \<open>second\<close> reads \<open>x\<close>, \<open>u\<close> and an empty input.
\<close>

definition example_shadowing_graph :: graph_proto where
  "example_shadowing_graph =
     GraphProto (Some ''else_branch'') None [] [\<lparr>vi_name = ''u'', vi_type = no_type\<rparr>]
       [\<lparr>vi_name = ''y'', vi_type = no_type\<rparr>] []
       [NodeProto ''first'' [] ''Identity'' [] [''x''] [''x''] [] [],
        NodeProto ''second'' [] ''Sum'' [] [''x'', ''u'', []] [''y''] [] []]"

section \<open>rewriter: the templates and rules of broadcast\_to\_matmul.py and gemm\_to\_matmul\_add.py\<close>

text \<open>
  A pattern function and a replacement function build a graph by calling operator
  builders (\<open>op.Reshape(...)\<close>, \<open>op.Gemm(..., alpha=1.0, beta=1.0)\<close>) on their parameters. What
  they build is a term: a parameter, or the call of an operator of a domain on terms, with
  the attribute literals of the call. \<open>op\<close> is \<open>pattern.onnxop\<close>, the default domain.
\<close>

datatype attribute_literal = FloatLiteral real | IntLiteral int | StringLiteral string

datatype 'v template =
    Var 'v
  | OpCall string string "'v template list" "(string \<times> attribute_literal) list"

definition Reshape :: "'v template \<Rightarrow> 'v template \<Rightarrow> 'v template" where
  "Reshape data shape = OpCall [] ''Reshape'' [data, shape] []"

definition MatMul :: "'v template \<Rightarrow> 'v template \<Rightarrow> 'v template" where
  "MatMul a b = OpCall [] ''MatMul'' [a, b] []"

definition Add :: "'v template \<Rightarrow> 'v template \<Rightarrow> 'v template" where
  "Add a b = OpCall [] ''Add'' [a, b] []"

definition Gemm ::
  "'v template \<Rightarrow> 'v template \<Rightarrow> 'v template \<Rightarrow> real \<Rightarrow> real \<Rightarrow> 'v template" where
  "Gemm a b c alpha beta =
     OpCall [] ''Gemm'' [a, b, c] [(''alpha'', FloatLiteral alpha), (''beta'', FloatLiteral beta)]"

definition two_reshapes_matmul_reshape_pattern ::
  "'v template \<Rightarrow> 'v template \<Rightarrow> 'v template \<Rightarrow> 'v template \<Rightarrow> 'v template \<Rightarrow> 'v template" where
  "two_reshapes_matmul_reshape_pattern input_a input_b shape_a shape_b shape_c =
     Reshape (MatMul (Reshape input_a shape_a) (Reshape input_b shape_b)) shape_c"

definition matmul_with_two_shape_inputs ::
  "'v template \<Rightarrow> 'v template \<Rightarrow> 'v template \<Rightarrow> 'v template \<Rightarrow> 'v template \<Rightarrow> 'v template" where
  "matmul_with_two_shape_inputs input_a input_b shape_a shape_b shape_c = MatMul input_a input_b"

definition one_reshape_matmul_reshape_pattern ::
  "'v template \<Rightarrow> 'v template \<Rightarrow> 'v template \<Rightarrow> 'v template \<Rightarrow> 'v template" where
  "one_reshape_matmul_reshape_pattern input_a input_b shape_a shape_c =
     Reshape (MatMul (Reshape input_a shape_a) input_b) shape_c"

definition matmul_with_one_shape_input ::
  "'v template \<Rightarrow> 'v template \<Rightarrow> 'v template \<Rightarrow> 'v template \<Rightarrow> 'v template" where
  "matmul_with_one_shape_input input_a input_b shape_a shape_c = MatMul input_a input_b"

definition reshape_gemm_reshape_pattern ::
  "'v template \<Rightarrow> 'v template \<Rightarrow> 'v template \<Rightarrow> 'v template \<Rightarrow> 'v template \<Rightarrow> 'v template" where
  "reshape_gemm_reshape_pattern input_a input_b input_c shape_a shape_c =
     Reshape (Gemm (Reshape input_a shape_a) input_b input_c 1.0 1.0) shape_c"

definition matmul_add ::
  "'v template \<Rightarrow> 'v template \<Rightarrow> 'v template \<Rightarrow> 'v template \<Rightarrow> 'v template \<Rightarrow> 'v template" where
  "matmul_add input_a input_b input_c shape_a shape_d = Add (MatMul input_a input_b) input_c"

text \<open>
  Modelled from the spec: \<open>pattern.RewriteRule\<close> and \<open>pattern.RewriteRuleSet\<close> (the module
  \<open>rewriter/pattern.py\<close> is not among the sources). A rule is a pattern, a guard and a
  replacement builder; the pattern is the template that the pattern function builds from
  placeholders named after its parameters, with the order of the placeholders; the
  replacement builder is given the bound values in that order, and a number of values
  that its function does not take is a rule-construction error (\<open>None\<close>). A rule set is the
  list of its rules in the order of registration. \<open>rule_name\<close> is the name the module gives
  the rule.
\<close>

record rewrite_rule =
  rule_name :: string
  target_pattern :: "string template"
  placeholders :: "string list"
  replacement :: "ir_value template list \<Rightarrow> ir_value template option"
  condition :: "match_bindings \<Rightarrow> error + bool"

definition two_reshapes_matmul_reshape_rule :: rewrite_rule where
  "two_reshapes_matmul_reshape_rule =
     \<lparr>rule_name = ''two_reshapes_matmul_reshape_rule'',
      target_pattern =
        two_reshapes_matmul_reshape_pattern (Var ''input_a'') (Var ''input_b'') (Var ''shape_a'')
          (Var ''shape_b'') (Var ''shape_c''),
      placeholders = [''input_a'', ''input_b'', ''shape_a'', ''shape_b'', ''shape_c''],
      replacement =
        (\<lambda>args. case args of
           [input_a, input_b, shape_a, shape_b, shape_c] \<Rightarrow>
             Some (matmul_with_two_shape_inputs input_a input_b shape_a shape_b shape_c)
         | _ \<Rightarrow> None),
      condition = check_if_need_reshape\<rparr>"

definition one_reshape_matmul_reshape_rule :: rewrite_rule where
  "one_reshape_matmul_reshape_rule =
     \<lparr>rule_name = ''one_reshape_matmul_reshape_rule'',
      target_pattern =
        one_reshape_matmul_reshape_pattern (Var ''input_a'') (Var ''input_b'') (Var ''shape_a'')
          (Var ''shape_c''),
      placeholders = [''input_a'', ''input_b'', ''shape_a'', ''shape_c''],
      replacement =
        (\<lambda>args. case args of
           [input_a, input_b, shape_a, shape_c] \<Rightarrow>
             Some (matmul_with_one_shape_input input_a input_b shape_a shape_c)
         | _ \<Rightarrow> None),
      condition = check_if_need_reshape\<rparr>"

text \<open>The rule set of broadcast\_to\_matmul.py, in its order of registration.\<close>

definition rules :: "rewrite_rule list" where
  "rules = [two_reshapes_matmul_reshape_rule, one_reshape_matmul_reshape_rule]"

text \<open>The rule of gemm\_to\_matmul\_add.py.\<close>

definition gemm_to_matmul_add_rewrite_rule :: rewrite_rule where
  "gemm_to_matmul_add_rewrite_rule =
     \<lparr>rule_name = ''rule'',
      target_pattern =
        reshape_gemm_reshape_pattern (Var ''input_a'') (Var ''input_b'') (Var ''input_c'')
          (Var ''shape_a'') (Var ''shape_c''),
      placeholders = [''input_a'', ''input_b'', ''input_c'', ''shape_a'', ''shape_c''],
      replacement =
        (\<lambda>args. case args of
           [input_a, input_b, input_c, shape_a, shape_d] \<Rightarrow>
             Some (matmul_add input_a input_b input_c shape_a shape_d)
         | _ \<Rightarrow> None),
      condition = check_if_need_reshape\<rparr>"

section \<open>rewriter: matching and the application of a rule set\<close>

text \<open>
  Modelled from the spec: the graph that is matched (section 3 of the specification; the
  module \<open>_legacy_ir\<close> is not among the sources). A node has its operator identity, its
  inputs (a missing input is \<open>None\<close>), the values it owns as outputs and its attributes; a
  graph is the list of its nodes in definition order. Each value has at most one
  producer.
\<close>

record graph_node =
  gn_domain :: string
  gn_op_type :: string
  gn_inputs :: "ir_value option list"
  gn_outputs :: "ir_value list"
  gn_attributes :: "(string \<times> attribute_literal) list"

definition producer :: "graph_node list \<Rightarrow> ir_value \<Rightarrow> graph_node option" where
  "producer G v = find (\<lambda>n. v \<in> set (gn_outputs n)) G"

definition consumers :: "graph_node list \<Rightarrow> ir_value \<Rightarrow> graph_node list" where
  "consumers G v = filter (\<lambda>n. Some v \<in> set (gn_inputs n)) G"

text \<open>
  Modelled from the spec: the matcher (section 4.3; \<open>rewriter/pattern.py\<close> is not among the
  sources). A match grows from the anchor node towards the inputs. A template node
  matches a node of the same operator identity with as many inputs, whose attributes
  have the values of the template's attribute literals; a placeholder is bound to the
  value it meets, and fails on a second, different value; the value that a template node
  is matched against must have a producer in the graph. At last every value that a
  matched node other than the anchor produces must have all its consumers among the
  matched nodes.
\<close>

definition node_matches ::
  "string \<Rightarrow> string \<Rightarrow> nat \<Rightarrow> (string \<times> attribute_literal) list \<Rightarrow> graph_node \<Rightarrow> bool" where
  "node_matches domain op_type arity literals n =
     (gn_domain n = domain \<and> gn_op_type n = op_type \<and> length (gn_inputs n) = arity
      \<and> list_all (\<lambda>(k, literal). map_of (gn_attributes n) k = Some literal) literals)"

fun match_value ::
  "graph_node list \<Rightarrow> string template \<Rightarrow> ir_value \<Rightarrow> match_bindings \<times> graph_node list
     \<Rightarrow> (match_bindings \<times> graph_node list) option"
and match_values ::
  "graph_node list \<Rightarrow> string template list \<Rightarrow> ir_value option list
     \<Rightarrow> match_bindings \<times> graph_node list \<Rightarrow> (match_bindings \<times> graph_node list) option"
where
  "match_value G (Var x) v (bindings, matched) =
     (case bindings x of
        None \<Rightarrow> Some (bindings(x \<mapsto> v), matched)
      | Some bound \<Rightarrow> if bound = v then Some (bindings, matched) else None)"
| "match_value G (OpCall domain op_type args literals) v (bindings, matched) =
     (case producer G v of
        None \<Rightarrow> None
      | Some n \<Rightarrow>
          if node_matches domain op_type (length args) literals n
          then match_values G args (gn_inputs n) (bindings, matched @ [n])
          else None)"
| "match_values G [] [] state = Some state"
| "match_values G (t # ts) (Some v # vs) state =
     (case match_value G t v state of
        None \<Rightarrow> None
      | Some state1 \<Rightarrow> match_values G ts vs state1)"
| "match_values G (t # ts) (None # vs) state = None"
| "match_values G [] (v # vs) state = None"
| "match_values G (t # ts) [] state = None"

definition exclusive :: "graph_node list \<Rightarrow> graph_node \<Rightarrow> graph_node list \<Rightarrow> bool" where
  "exclusive G anchor matched =
     list_all (\<lambda>m. m = anchor
                \<or> list_all (\<lambda>v. list_all (\<lambda>c. c \<in> set matched) (consumers G v)) (gn_outputs m))
       matched"

definition match_at :: "graph_node list \<Rightarrow> string template \<Rightarrow> graph_node \<Rightarrow> match_bindings option" where
  "match_at G pattern anchor =
     (case pattern of
        Var x \<Rightarrow> None
      | OpCall domain op_type args literals \<Rightarrow>
          if node_matches domain op_type (length args) literals anchor
          then (case match_values G args (gn_inputs anchor) (Map.empty, [anchor]) of
                  None \<Rightarrow> None
                | Some (bindings, matched) \<Rightarrow>
                    if exclusive G anchor matched then Some bindings else None)
          else None)"

text \<open>
  Modelled from the spec: one rule at one anchor node (sections 4.4, 4.5 and 7): the
  matcher, then the guard on the bindings, then the replacement built from the bound
  values. No match and a guard that returns False give no rewrite; an exception of the
  guard propagates; a replacement builder that does not fit the bindings is an error.
\<close>

definition bound_values :: "match_bindings \<Rightarrow> string list \<Rightarrow> ir_value template list option" where
  "bound_values bindings names =
     (if list_all (\<lambda>x. bindings x \<noteq> None) names
      then Some (map (\<lambda>x. Var (the (bindings x))) names) else None)"

definition try_rewrite ::
  "graph_node list \<Rightarrow> rewrite_rule \<Rightarrow> graph_node \<Rightarrow> error + ir_value template option" where
  "try_rewrite G rule anchor =
     (case match_at G (target_pattern rule) anchor of
        None \<Rightarrow> Inr None
      | Some bindings \<Rightarrow>
          bind_err (condition rule bindings) (\<lambda>accepted.
            if \<not> accepted then Inr None
            else (case bound_values bindings (placeholders rule) of
                    None \<Rightarrow> Inl ReplacementArityError
                  | Some args \<Rightarrow>
                      (case replacement rule args of
                         None \<Rightarrow> Inl ReplacementArityError
                       | Some new \<Rightarrow> Inr (Some new)))))"

text \<open>
  Modelled from the spec: a rule set at one anchor node (section 4.6): the rules are tried
  in list order and the first whose matcher and guard both succeed is applied. The
  result is the name of the rule applied and the replacement it built.
\<close>

fun apply_first_rule ::
  "graph_node list \<Rightarrow> rewrite_rule list \<Rightarrow> graph_node
     \<Rightarrow> error + (string \<times> ir_value template) option" where
  "apply_first_rule G [] anchor = Inr None"
| "apply_first_rule G (rule # later) anchor =
     (case try_rewrite G rule anchor of
        Inl e \<Rightarrow> Inl e
      | Inr (Some new) \<Rightarrow> Inr (Some (rule_name rule, new))
      | Inr None \<Rightarrow> apply_first_rule G later anchor)"

section \<open>rewriter: the chain of Scenario B and example graphs\<close>


text \<open>
  Example graphs: \<open>a\<close> of shape [2,3,4] reshaped to [6,4], multiplied by a matrix of shape
  [4,5], the product reshaped to [2,3,5].
\<close>

definition example_tensor_value :: "string \<Rightarrow> int list \<Rightarrow> ir_value" where
  "example_tensor_value name shape =
     \<lparr>val_name = name, val_shape = Some shape, value_as_np_array = None\<rparr>"

definition example_shape_constant :: "string \<Rightarrow> int list \<Rightarrow> ir_value" where
  "example_shape_constant name elements =
     \<lparr>val_name = name, val_shape = Some [int (length elements)],
      value_as_np_array = Some (NdArray \<lparr>nd_shape = [length elements], nd_data = elements\<rparr>)\<rparr>"

definition example_call ::
  "string \<Rightarrow> ir_value list \<Rightarrow> (string \<times> attribute_literal) list \<Rightarrow> ir_value \<Rightarrow> graph_node" where
  "example_call op_type inputs attributes out =
     \<lparr>gn_domain = [], gn_op_type = op_type, gn_inputs = map Some inputs, gn_outputs = [out],
      gn_attributes = attributes\<rparr>"

definition example_anchor :: graph_node where
  "example_anchor =
     example_call ''Reshape''
       [example_tensor_value ''m'' [6, 5], example_shape_constant ''shape_c'' [2, 3, 5]] []
       (example_tensor_value ''out'' [2, 3, 5])"

definition example_reshape_a :: graph_node where
  "example_reshape_a =
     example_call ''Reshape''
        [example_tensor_value ''a'' [2, 3, 4], example_shape_constant ''shape_a'' [6, 4]] []
        (example_tensor_value ''ra'' [6, 4])"

definition example_two_reshapes_graph :: "int list \<Rightarrow> graph_node list" where
  "example_two_reshapes_graph b_shape =
     [example_reshape_a,
      example_call ''Reshape''
        [example_tensor_value ''b'' b_shape, example_shape_constant ''shape_b'' [4, 5]] []
        (example_tensor_value ''rb'' [4, 5]),
      example_call ''MatMul''
        [example_tensor_value ''ra'' [6, 4], example_tensor_value ''rb'' [4, 5]] []
        (example_tensor_value ''m'' [6, 5]),
      example_anchor]"

definition example_one_reshape_graph :: "graph_node list" where
  "example_one_reshape_graph =
     [example_reshape_a,
      example_call ''MatMul''
        [example_tensor_value ''ra'' [6, 4], example_tensor_value ''b'' [4, 5]] []
        (example_tensor_value ''m'' [6, 5]),
      example_anchor]"

definition example_gemm_graph :: "real \<Rightarrow> graph_node list" where
  "example_gemm_graph alpha =
     [example_reshape_a,
      example_call ''Gemm''
        [example_tensor_value ''ra'' [6, 4], example_tensor_value ''b'' [4, 5],
         example_tensor_value ''c'' [5]]
        [(''alpha'', FloatLiteral alpha), (''beta'', FloatLiteral 1)]
        (example_tensor_value ''m'' [6, 5]),
      example_anchor]"

section \<open>Properties of the guard\<close>

lemma bind_err_simps:
  "bind_err (Inl e) f = Inl e"
  "bind_err (Inr v) f = f v"
  by (simp_all add: bind_err_def)

lemma lookup_binding_Some:
  "match_bindings k = Some v \<Longrightarrow> lookup_binding match_bindings k = Inr v"
  by (simp add: lookup_binding_def)

text \<open>
  Claim C3. When the three placeholders are bound and the resolved constant array of
  \<open>shape_c\<close> is unknown, or the static shape of \<open>input_a\<close> or of \<open>input_b\<close> is unavailable,
  the guard returns False: it raises nothing and never accepts the match.
\<close>

theorem check_if_need_reshape_unknown_is_false:
  assumes "match_bindings ''input_a'' = Some input_a"
    and "match_bindings ''input_b'' = Some input_b"
    and "match_bindings ''shape_c'' = Some shape_c"
    and "value_as_np_array shape_c = None \<or> val_shape input_a = None \<or> val_shape input_b = None"
  shows "check_if_need_reshape match_bindings = Inr False"
proof (cases "value_as_np_array shape_c")
  case None
  with assms(1-3) show ?thesis
    by (simp add: check_if_need_reshape_def lookup_binding_Some bind_err_simps)
next
  case (Some obj)
  with assms(4) have shapes: "val_shape input_a = None \<or> val_shape input_b = None"
    by simp
  show ?thesis
  proof (cases obj)
    case NotNdArray
    with Some assms(1-3) show ?thesis
      by (simp add: check_if_need_reshape_def lookup_binding_Some bind_err_simps)
  next
    case (NdArray arr)
    with Some assms(1-3) shapes show ?thesis
      by (auto simp add: check_if_need_reshape_def lookup_binding_Some bind_err_simps
          check_shapes_def)
  qed
qed

theorem check_if_need_reshape_unknown_is_false_witness:
  "check_if_need_reshape
     [''input_a'' \<mapsto> \<lparr>val_name = ''a'', val_shape = Some [2, 3, 4], value_as_np_array = None\<rparr>,
      ''input_b'' \<mapsto> \<lparr>val_name = ''b'', val_shape = Some [4, 5], value_as_np_array = None\<rparr>,
      ''shape_c'' \<mapsto> \<lparr>val_name = ''s'', val_shape = Some [3], value_as_np_array = None\<rparr>]
   = Inr False"
  by (rule check_if_need_reshape_unknown_is_false
      [where input_a = "\<lparr>val_name = ''a'', val_shape = Some [2, 3, 4], value_as_np_array = None\<rparr>"
         and input_b = "\<lparr>val_name = ''b'', val_shape = Some [4, 5], value_as_np_array = None\<rparr>"
         and shape_c = "\<lparr>val_name = ''s'', val_shape = Some [3], value_as_np_array = None\<rparr>"])
     simp_all

text \<open>
  Claim C4. For every binding in which \<open>input_a\<close> has shape [2,3,4], \<open>input_b\<close> has shape
  [4,5] and \<open>shape_c\<close> resolves to the one-dimensional constant array [2,3,5], the guard
  computes [2,3,5] as the shape of the plain batched MatMul of the two inputs and
  returns True.
\<close>

theorem check_if_need_reshape_scenario_a:
  assumes "match_bindings ''input_a'' = Some input_a"
    and "match_bindings ''input_b'' = Some input_b"
    and "match_bindings ''shape_c'' = Some shape_c"
    and "val_shape input_a = Some [2, 3, 4]"
    and "val_shape input_b = Some [4, 5]"
    and "value_as_np_array shape_c = Some (NdArray arr)"
    and "nd_shape arr = [3]"
    and "nd_data arr = [2, 3, 5]"
  shows "broadcast_matmul_output_shape [2, 3, 4] [4, 5] = Inr (Some [2, 3, 5])
         \<and> check_if_need_reshape match_bindings = Inr True"
proof -
  have out: "broadcast_matmul_output_shape [2, 3, 4] [4, 5] = Inr (Some [2, 3, 5])"
    by (simp add: broadcast_matmul_output_shape_def pad_input_a_def pad_input_b_def
        bind_err_simps py_last_def py_second_last_def py_drop_last_def)
  have "check_if_need_reshape match_bindings = Inr True"
    using assms
    by (simp add: check_if_need_reshape_def lookup_binding_Some bind_err_simps
        check_shapes_def out compare_output_shape_def tolist_def)
  with out show ?thesis by simp
qed

theorem check_if_need_reshape_scenario_a_witness:
  "broadcast_matmul_output_shape [2, 3, 4] [4, 5] = Inr (Some [2, 3, 5])
   \<and> check_if_need_reshape
     [''input_a'' \<mapsto> \<lparr>val_name = ''a'', val_shape = Some [2, 3, 4], value_as_np_array = None\<rparr>,
      ''input_b'' \<mapsto> \<lparr>val_name = ''b'', val_shape = Some [4, 5], value_as_np_array = None\<rparr>,
      ''shape_c'' \<mapsto> \<lparr>val_name = ''shape_c'', val_shape = Some [3],
         value_as_np_array = Some (NdArray \<lparr>nd_shape = [3], nd_data = [2, 3, 5]\<rparr>)\<rparr>]
   = Inr True"
  by (rule check_if_need_reshape_scenario_a
      [where input_a = "\<lparr>val_name = ''a'', val_shape = Some [2, 3, 4], value_as_np_array = None\<rparr>"
         and input_b = "\<lparr>val_name = ''b'', val_shape = Some [4, 5], value_as_np_array = None\<rparr>"
         and shape_c = "\<lparr>val_name = ''shape_c'', val_shape = Some [3],
            value_as_np_array = Some (NdArray \<lparr>nd_shape = [3], nd_data = [2, 3, 5]\<rparr>)\<rparr>"
         and arr = "\<lparr>nd_shape = [3], nd_data = [2, 3, 5]\<rparr>"])
     simp_all

section \<open>Properties of the driver\<close>

lemma bind_run_calls_all:
  assumes "\<forall>c\<in>set (fst r). Q c" and "\<And>v. snd r = Inr v \<Longrightarrow> \<forall>c\<in>set (fst (f v)). Q c"
  shows "\<forall>c\<in>set (fst (bind_run r f)). Q c"
  using assms by (auto simp add: bind_run_def split: sum.splits)

lemma bind_run_InrE:
  assumes "bind_run r f = (cs, Inr v)"
  obtains cs1 u cs2 where "r = (cs1, Inr u)" and "f u = (cs2, Inr v)" and "cs = cs1 @ cs2"
  using assms by (cases r; cases "snd r") (auto simp add: bind_run_def prod_eq_iff)

lemma call_pass_calls:
  "\<forall>c\<in>set (fst (call_pass p f m)). call_pass_name c = p \<and> call_before c = m"
  by (auto simp add: call_pass_def split: sum.splits)

lemma call_pass_Inr:
  "call_pass p f m = (cs, Inr m') \<Longrightarrow> cs = [Call p m (Some m')] \<and> f m = Inr m'"
  by (auto simp add: call_pass_def split: sum.splits)

lemma call_fold_constants_calls:
  "\<forall>c\<in>set (fst (call_fold_constants P edf osi m)). call_pass_name c = FoldConstants"
  by (auto simp add: call_fold_constants_def split: sum.splits)

lemma call_fold_constants_Inr:
  "call_fold_constants P edf osi m = (cs, Inr folded) \<Longrightarrow>
     cs = [Call FoldConstants m (Some (fst folded))] \<and> fold_constants P edf osi m = Inr folded"
  by (auto simp add: call_fold_constants_def split: sum.splits)

lemma shape_inference_step_calls:
  "\<forall>c\<in>set (fst (shape_inference_step P osi m)).
     call_pass_name c = InferShapes \<and> call_before c = m \<and> osi \<and> ByteSize P m < 2 * 1024 ^ 3"
  using call_pass_calls[of InferShapes "infer_shapes P" m]
  by (simp add: shape_inference_step_def)

lemma passes_after_folding_calls:
  "\<forall>c\<in>set (fst (passes_after_folding P m)). call_pass_name c \<noteq> InferShapes"
  unfolding passes_after_folding_def
  by (intro bind_run_calls_all) (use call_pass_calls in fastforce)+

lemma iteration_infer_shapes:
  "\<forall>c\<in>set (fst (iteration P osi edf m)).
     call_pass_name c = InferShapes \<longrightarrow> osi \<and> ByteSize P (call_before c) < 2 * 1024 ^ 3"
  unfolding iteration_def
proof (intro bind_run_calls_all)
  show "\<forall>c\<in>set (fst (shape_inference_step P osi m)).
     call_pass_name c = InferShapes \<longrightarrow> osi \<and> ByteSize P (call_before c) < 2 * 1024 ^ 3"
    using shape_inference_step_calls[of P osi m] by fastforce
qed (use call_pass_calls call_fold_constants_calls passes_after_folding_calls in fastforce)+

lemma fst_optimize_loop_Suc:
  "fst (optimize_loop P osi stop edf (Suc k) m) =
     fst (iteration P osi edf m) #
       (case snd (iteration P osi edf m) of
          Inl e \<Rightarrow> []
        | Inr folded \<Rightarrow>
            if stop \<and> \<not> snd folded then []
            else fst (optimize_loop P osi stop edf k (fst folded)))"
  by (simp split: prod.splits sum.splits)

lemma snd_optimize_loop_Suc:
  "snd (optimize_loop P osi stop edf (Suc k) m) =
       (case snd (iteration P osi edf m) of
          Inl e \<Rightarrow> Inl e
        | Inr folded \<Rightarrow>
            if stop \<and> \<not> snd folded then Inr (fst folded)
            else snd (optimize_loop P osi stop edf k (fst folded)))"
  by (simp split: prod.splits sum.splits)

lemma optimize_loop_infer_shapes:
  "calls \<in> set (fst (optimize_loop P osi stop edf k m)) \<Longrightarrow> c \<in> set calls \<Longrightarrow>
     call_pass_name c = InferShapes \<Longrightarrow> osi \<and> ByteSize P (call_before c) < 2 * 1024 ^ 3"
proof (induction k arbitrary: m)
  case 0
  then show ?case by simp
next
  case (Suc k)
  have here: "calls = fst (iteration P osi edf m) \<Longrightarrow> ?case"
    using iteration_infer_shapes[of P osi edf m] Suc.prems(2,3) by auto
  have later: "calls \<in> set (fst (optimize_loop P osi stop edf k m')) \<Longrightarrow> ?case" for m'
    using Suc.IH[of m'] Suc.prems(2,3) by auto
  from Suc.prems(1)
  have "calls = fst (iteration P osi edf m)
        \<or> (\<exists>m'. calls \<in> set (fst (optimize_loop P osi stop edf k m')))"
    unfolding fst_optimize_loop_Suc by (auto split: sum.splits if_splits)
  with here later show ?case by blast
qed

lemma optimize_loop_length: "length (fst (optimize_loop P osi stop edf k m)) \<le> k"
proof (induction k arbitrary: m)
  case 0
  then show ?case by simp
next
  case (Suc k)
  show ?case
    unfolding fst_optimize_loop_Suc using Suc.IH by (simp split: sum.splits)
qed

lemma iteration_Inr:
  assumes "iteration P osi edf m = (calls, Inr (m', modified))"
  shows "\<exists>m2 m3. Call FoldConstants m2 (Some m3) \<in> set calls
            \<and> fold_constants P edf osi m2 = Inr (m3, modified)"
proof -
  from assms obtain cs1 m1 cs2 m2 cs3 folded cs4 m8 where
      "call_fold_constants P edf osi m2 = (cs3, Inr folded)"
      and "calls = cs1 @ cs2 @ cs3 @ cs4 @ []"
      and "(m', modified) = (m8, snd folded)"
    unfolding iteration_def
    by (elim bind_run_InrE) auto
  then show ?thesis
    using call_fold_constants_Inr[of P edf osi m2 cs3 folded]
    by (cases folded) auto
qed

lemma passes_after_folding_Inr:
  assumes "passes_after_folding P m = (cs, Inr m')"
  shows "cs \<noteq> [] \<and> call_after (last cs) = Some m'"
  using assms unfolding passes_after_folding_def
  by (elim bind_run_InrE) (auto dest!: call_pass_Inr)

lemma iteration_last_call:
  assumes "iteration P osi edf m = (calls, Inr (m', modified))"
  shows "calls \<noteq> [] \<and> call_after (last calls) = Some m'"
proof -
  from assms obtain cs1 cs2 cs3 folded cs4 m8 where
      "passes_after_folding P (fst folded) = (cs4, Inr m8)"
      and "calls = cs1 @ cs2 @ cs3 @ cs4 @ []"
      and "(m', modified) = (m8, snd folded)"
    unfolding iteration_def
    by (elim bind_run_InrE) auto
  then show ?thesis
    using passes_after_folding_Inr[of P "fst folded" cs4 m8] by auto
qed

lemma optimize_loop_stops:
  assumes accurate: "\<And>folder inference m m'. fold_constants P folder inference m = Inr (m', True) \<Longrightarrow> m' \<noteq> m"
    and "i < length (fst (optimize_loop P osi True edf k m))"
    and "\<forall>c\<in>set (fst (optimize_loop P osi True edf k m) ! i). unchanged c"
  shows "Suc i = length (fst (optimize_loop P osi True edf k m))"
  using assms(2,3)
proof (induction k arbitrary: m i)
  case 0
  then show ?case by simp
next
  case (Suc k)
  obtain calls r where it: "iteration P osi edf m = (calls, r)"
    by (cases "iteration P osi edf m")
  show ?case
  proof (cases r)
    case (Inl e)
    with it Suc.prems show ?thesis by (simp add: fst_optimize_loop_Suc del: optimize_loop.simps)
  next
    case (Inr folded)
    show ?thesis
    proof (cases "snd folded")
      case False
      with it Inr Suc.prems show ?thesis by (simp add: fst_optimize_loop_Suc del: optimize_loop.simps)
    next
      case True
      then have f: "folded = (fst folded, True)" by (cases folded) simp
      with it Inr have "iteration P osi edf m = (calls, Inr (fst folded, True))" by simp
      from iteration_Inr[OF this]
      obtain m2 m3 where c: "Call FoldConstants m2 (Some m3) \<in> set calls"
        and "fold_constants P edf osi m2 = Inr (m3, True)"
        by auto
      then have "m3 \<noteq> m2" using accurate by blast
      with c have changed: "\<not> (\<forall>c\<in>set calls. unchanged c)"
        by (force simp add: unchanged_def)
      show ?thesis
      proof (cases i)
        case 0
        with Suc.prems(2) it changed show ?thesis by (simp add: fst_optimize_loop_Suc del: optimize_loop.simps)
      next
        case (Suc j)
        with Suc.prems it Inr True
        have "j < length (fst (optimize_loop P osi True edf k (fst folded)))"
          and "\<forall>c\<in>set (fst (optimize_loop P osi True edf k (fst folded)) ! j). unchanged c"
          by (simp_all add: fst_optimize_loop_Suc del: optimize_loop.simps)
        then have "Suc j = length (fst (optimize_loop P osi True edf k (fst folded)))"
          by (rule Suc.IH)
        with Suc it Inr True show ?thesis by (simp add: fst_optimize_loop_Suc del: optimize_loop.simps)
      qed
    qed
  qed
qed

lemma optimize_loop_result:
  assumes "snd (optimize_loop P osi stop edf k m) = Inr m'"
  shows "(fst (optimize_loop P osi stop edf k m) = [] \<and> m' = m)
       \<or> (fst (optimize_loop P osi stop edf k m) \<noteq> []
          \<and> last (fst (optimize_loop P osi stop edf k m)) \<noteq> []
          \<and> call_after (last (last (fst (optimize_loop P osi stop edf k m)))) = Some m')"
  using assms
proof (induction k arbitrary: m)
  case 0
  then show ?case by simp
next
  case (Suc k)
  obtain calls r where it: "iteration P osi edf m = (calls, r)"
    by (cases "iteration P osi edf m")
  from Suc.prems it obtain folded where r: "r = Inr folded"
    by (cases r) (simp_all add: snd_optimize_loop_Suc del: optimize_loop.simps)
  with it have "iteration P osi edf m = (calls, Inr (fst folded, snd folded))" by simp
  then have last: "calls \<noteq> [] \<and> call_after (last calls) = Some (fst folded)"
    by (rule iteration_last_call)
  show ?case
  proof (cases "stop \<and> \<not> snd folded")
    case True
    with Suc.prems it r last show ?thesis
      by (simp add: fst_optimize_loop_Suc snd_optimize_loop_Suc del: optimize_loop.simps)
  next
    case False
    with Suc.prems it r have "snd (optimize_loop P osi stop edf k (fst folded)) = Inr m'"
      by (simp add: snd_optimize_loop_Suc del: optimize_loop.simps)
    from Suc.IH[OF this] False it r last show ?thesis
      by (auto simp add: fst_optimize_loop_Suc simp del: optimize_loop.simps)
  qed
qed
lemma example_iteration_from_one:
  "iteration example_passes True [] (Suc 0) =
   ([Call InlineSimpleFunctions (Suc 0) (Some (Suc 0)), Call FoldConstants (Suc 0) (Some 0),
     Call RemoveUnusedNodes 0 (Some 0), Call InlineSimpleFunctions 0 (Some 0),
     Call RemoveUnusedFunctions 0 (Some 0), Call InlineFunctionsWithUnusedOutputs 0 (Some 0),
     Call Rewrite 0 (Some 0)], Inr (0, True))"
  by (simp add: iteration_def passes_after_folding_def shape_inference_step_def call_pass_def
      call_fold_constants_def bind_run_def example_passes_def)

lemma example_iteration_from_zero:
  "iteration example_passes True [] 0 =
   ([Call InferShapes 0 (Some 0), Call InlineSimpleFunctions 0 (Some 0),
     Call FoldConstants 0 (Some 0), Call RemoveUnusedNodes 0 (Some 0),
     Call InlineSimpleFunctions 0 (Some 0), Call RemoveUnusedFunctions 0 (Some 0),
     Call InlineFunctionsWithUnusedOutputs 0 (Some 0), Call Rewrite 0 (Some 0)], Inr (0, False))"
  by (simp add: iteration_def passes_after_folding_def shape_inference_step_def call_pass_def
      call_fold_constants_def bind_run_def example_passes_def)

lemma example_run:
  "optimize example_passes (Suc 0) 5 True True [] =
     ([[Call InlineSimpleFunctions (Suc 0) (Some (Suc 0)), Call FoldConstants (Suc 0) (Some 0),
        Call RemoveUnusedNodes 0 (Some 0), Call InlineSimpleFunctions 0 (Some 0),
        Call RemoveUnusedFunctions 0 (Some 0), Call InlineFunctionsWithUnusedOutputs 0 (Some 0),
        Call Rewrite 0 (Some 0)],
       [Call InferShapes 0 (Some 0), Call InlineSimpleFunctions 0 (Some 0),
        Call FoldConstants 0 (Some 0), Call RemoveUnusedNodes 0 (Some 0),
        Call InlineSimpleFunctions 0 (Some 0), Call RemoveUnusedFunctions 0 (Some 0),
        Call InlineFunctionsWithUnusedOutputs 0 (Some 0), Call Rewrite 0 (Some 0)]], Inr 0)"
  by (simp add: optimize_def eval_nat_numeral example_iteration_from_one
      example_iteration_from_zero)

lemma example_passes_accurate:
  "fold_constants example_passes folder inference m = Inr (m', True) \<Longrightarrow> m' \<noteq> m"
  by (auto simp add: example_passes_def split: if_splits)

text \<open>
  Claim C1. Let \<open>fold_constants\<close> report a modification only when the model it returns is
  not the model it was given. Then \<open>optimize\<close> runs at most \<open>num_iterations\<close> iterations of
  the pass sequence, and with \<open>stop_if_no_change\<close> an iteration in which no pass changed
  the model is the last one run. (The loop reads the flag of \<open>fold_constants\<close> alone.)
\<close>

theorem optimize_iteration_bound_and_early_stop:
  assumes "\<And>folder inference m m'. fold_constants P folder inference m = Inr (m', True) \<Longrightarrow> m' \<noteq> m"
  shows "length (fst (optimize P model num_iterations osi stop_if_no_change edf)) \<le> nat num_iterations
     \<and> (stop_if_no_change \<longrightarrow>
          (\<forall>i < length (fst (optimize P model num_iterations osi stop_if_no_change edf)).
             (\<forall>c\<in>set (fst (optimize P model num_iterations osi stop_if_no_change edf) ! i). unchanged c)
             \<longrightarrow> Suc i = length (fst (optimize P model num_iterations osi stop_if_no_change edf))))"
  using optimize_loop_length[of P osi stop_if_no_change edf "nat num_iterations" model]
    optimize_loop_stops[where P = P and osi = osi and edf = edf and k = "nat num_iterations"
      and m = model, OF assms]
  by (auto simp add: optimize_def)

theorem optimize_iteration_bound_and_early_stop_witness:
  "length (fst (optimize example_passes (Suc 0) 5 True True [])) \<le> nat 5
   \<and> 1 < length (fst (optimize example_passes (Suc 0) 5 True True []))
   \<and> list_all unchanged (fst (optimize example_passes (Suc 0) 5 True True []) ! 1)
   \<and> Suc 1 = length (fst (optimize example_passes (Suc 0) 5 True True []))"
proof -
  let ?logs = "fst (optimize example_passes (Suc 0) 5 True True [])"
  have run: "1 < length ?logs \<and> list_all unchanged (?logs ! 1)"
    by (simp add: example_run unchanged_def)
  have "length ?logs \<le> nat 5
     \<and> (True \<longrightarrow> (\<forall>i < length ?logs. (\<forall>c\<in>set (?logs ! i). unchanged c)
                     \<longrightarrow> Suc i = length ?logs))"
    by (rule optimize_iteration_bound_and_early_stop) (rule example_passes_accurate)
  then have "length ?logs \<le> nat 5"
    and "1 < length ?logs \<Longrightarrow> (\<forall>c\<in>set (?logs ! 1). unchanged c) \<Longrightarrow> Suc 1 = length ?logs"
    by blast+
  with run show ?thesis by (simp add: list_all_iff)
qed

text \<open>
  The converse does not hold: the loop also stops after an iteration in which a pass other
  than \<open>fold_constants\<close> changed the model, since only the flag of \<open>fold_constants\<close> is read.
\<close>

lemma example_iteration_rewrite_changes:
  "iteration (example_passes\<lparr>rewrite := (\<lambda>rules m. Inr (Suc m))\<rparr>) False [] 0 =
     ([Call InlineSimpleFunctions 0 (Some 0), Call FoldConstants 0 (Some 0),
       Call RemoveUnusedNodes 0 (Some 0), Call InlineSimpleFunctions 0 (Some 0),
       Call RemoveUnusedFunctions 0 (Some 0), Call InlineFunctionsWithUnusedOutputs 0 (Some 0),
       Call Rewrite 0 (Some (Suc 0))], Inr (Suc 0, False))"
  by (simp add: iteration_def passes_after_folding_def shape_inference_step_def call_pass_def
      call_fold_constants_def bind_run_def example_passes_def)

lemma optimize_stops_although_rewrite_changed:
  "optimize (example_passes\<lparr>rewrite := (\<lambda>rules m. Inr (Suc m))\<rparr>) 0 5 False True [] =
     ([[Call InlineSimpleFunctions 0 (Some 0), Call FoldConstants 0 (Some 0),
        Call RemoveUnusedNodes 0 (Some 0), Call InlineSimpleFunctions 0 (Some 0),
        Call RemoveUnusedFunctions 0 (Some 0), Call InlineFunctionsWithUnusedOutputs 0 (Some 0),
        Call Rewrite 0 (Some (Suc 0))]], Inr (Suc 0))"
  by (simp add: optimize_def eval_nat_numeral example_iteration_rewrite_changes)

text \<open>
  Claim C9. Whenever \<open>optimize\<close> calls onnx shape inference on a model, in any iteration,
  \<open>onnx_shape_inference\<close> is set and the serialized size of that model is strictly below
  2 * 1024^3 bytes; so a model of 2 GiB or more is never passed to shape inference.
\<close>

theorem optimize_shape_inference_only_below_limit:
  assumes "calls \<in> set (fst (optimize P model num_iterations onnx_shape_inference
                              stop_if_no_change external_data_folder))"
    and "c \<in> set calls"
    and "call_pass_name c = InferShapes"
  shows "onnx_shape_inference \<and> ByteSize P (call_before c) < 2 * 1024 ^ 3"
  using assms unfolding optimize_def by (rule optimize_loop_infer_shapes)

theorem optimize_shape_inference_only_below_limit_witness:
  "[Call InferShapes 0 (Some 0), Call InlineSimpleFunctions 0 (Some 0),
    Call FoldConstants 0 (Some 0), Call RemoveUnusedNodes 0 (Some 0),
    Call InlineSimpleFunctions 0 (Some 0), Call RemoveUnusedFunctions 0 (Some 0),
    Call InlineFunctionsWithUnusedOutputs 0 (Some 0), Call Rewrite 0 (Some 0)]
     \<in> set (fst (optimize example_passes (Suc 0) 5 True True []))
   \<and> ByteSize example_passes 0 < 2 * 1024 ^ 3
   \<and> ByteSize example_passes (Suc 0) \<ge> 2 * 1024 ^ 3
   \<and> list_all (\<lambda>c. call_pass_name c \<noteq> InferShapes)
         (fst (optimize example_passes (Suc 0) 5 True True []) ! 0)"
proof -
  let ?calls = "[Call InferShapes 0 (Some 0), Call InlineSimpleFunctions 0 (Some 0),
    Call FoldConstants 0 (Some 0), Call RemoveUnusedNodes 0 (Some 0),
    Call InlineSimpleFunctions 0 (Some 0), Call RemoveUnusedFunctions 0 (Some 0),
    Call InlineFunctionsWithUnusedOutputs 0 (Some 0), Call Rewrite (0::nat) (Some 0)]"
  have mem: "?calls \<in> set (fst (optimize example_passes (Suc 0) 5 True True []))"
    by (simp add: example_run)
  have "ByteSize example_passes (call_before (Call InferShapes (0::nat) (Some 0))) < 2 * 1024 ^ 3"
    using optimize_shape_inference_only_below_limit
            [OF mem, of "Call InferShapes 0 (Some 0)"] by simp
  moreover have "ByteSize example_passes (Suc 0) \<ge> 2 * 1024 ^ 3"
    by (simp add: example_passes_def)
  moreover have "list_all (\<lambda>c. call_pass_name c \<noteq> InferShapes)
         (fst (optimize example_passes (Suc 0) 5 True True []) ! 0)"
    by (simp add: example_run)
  ultimately show ?thesis using mem by simp
qed

text \<open>
  Claim C2, as stated, fails. The package exports four names besides \<open>optimize\<close>, and
  \<open>optimize\<close> returns the model alone: the two runs below return the same value, although
  \<open>fold_constants\<close> changed the model in the first and no pass changed it in the second, so
  nothing in the result states whether anything changed.
\<close>

theorem optimize_returns_no_changed_flag:
  "optimize example_passes (Suc 0) 1 True True [] =
     ([[Call InlineSimpleFunctions (Suc 0) (Some (Suc 0)), Call FoldConstants (Suc 0) (Some 0),
        Call RemoveUnusedNodes 0 (Some 0), Call InlineSimpleFunctions 0 (Some 0),
        Call RemoveUnusedFunctions 0 (Some 0), Call InlineFunctionsWithUnusedOutputs 0 (Some 0),
        Call Rewrite 0 (Some 0)]], Inr 0)
   \<and> optimize example_passes 0 1 True True [] =
     ([[Call InferShapes 0 (Some 0), Call InlineSimpleFunctions 0 (Some 0),
        Call FoldConstants 0 (Some 0), Call RemoveUnusedNodes 0 (Some 0),
        Call InlineSimpleFunctions 0 (Some 0), Call RemoveUnusedFunctions 0 (Some 0),
        Call InlineFunctionsWithUnusedOutputs 0 (Some 0), Call Rewrite 0 (Some 0)]], Inr 0)
   \<and> optimizer_all \<noteq> [''optimize'']"
  by (simp add: optimize_def example_iteration_from_one example_iteration_from_zero
      optimizer_all_def)

text \<open>
  Claim C2, amended. \<open>optimize\<close> is one of the five names the package exports. It takes the
  model, the iteration count and the keyword arguments \<open>onnx_shape_inference\<close>,
  \<open>stop_if_no_change\<close> and \<open>external_data_folder\<close>, and what it returns is the model alone:
  the input model when no pass was called, else the model that the last pass called in
  the last iteration returned.
\<close>

theorem optimize_returns_model_of_last_pass:
  assumes "snd (optimize P model num_iterations onnx_shape_inference stop_if_no_change
                  external_data_folder) = Inr model'"
  shows "''optimize'' \<in> set optimizer_all \<and> length optimizer_all = 5
     \<and> ((fst (optimize P model num_iterations onnx_shape_inference stop_if_no_change
                external_data_folder) = [] \<and> model' = model)
        \<or> (fst (optimize P model num_iterations onnx_shape_inference stop_if_no_change
                   external_data_folder) \<noteq> []
           \<and> last (fst (optimize P model num_iterations onnx_shape_inference stop_if_no_change
                          external_data_folder)) \<noteq> []
           \<and> call_after (last (last (fst (optimize P model num_iterations onnx_shape_inference
                                             stop_if_no_change external_data_folder))))
               = Some model'))"
  using optimize_loop_result[of P onnx_shape_inference stop_if_no_change external_data_folder
      "nat num_iterations" model model'] assms
  by (simp add: optimize_def optimizer_all_def)

theorem optimize_returns_model_of_last_pass_witness:
  "snd (optimize example_passes (Suc 0) 5 True True []) = Inr 0
   \<and> fst (optimize example_passes (Suc 0) 5 True True []) \<noteq> []
   \<and> call_after (last (last (fst (optimize example_passes (Suc 0) 5 True True [])))) = Some 0"
proof -
  have r: "snd (optimize example_passes (Suc 0) 5 True True []) = Inr 0"
    by (simp add: example_run)
  have ne: "fst (optimize example_passes (Suc 0) 5 True True []) \<noteq> []"
    by (simp add: example_run)
  from optimize_returns_model_of_last_pass[OF r] ne r show ?thesis by simp
qed

section \<open>Properties of the tensor round trip\<close>

lemma deserialize_tensor_keeps_proto:
  assumes "tp_data_location proto \<noteq> EXTERNAL"
    and "deserialize_tensor proto base_path = Inr t"
  shows "\<exists>c. t = ProtoTensor c proto"
  using assms
  by (auto simp add: deserialize_tensor_def new_tensor_def split: if_splits)

text \<open>
  Where deserialization of a tensor that is not external succeeds, serialization gives
  the proto back. It succeeds when \<open>raw_data\<close> is set or the data type is one of the
  compatible types of the five subclasses.
\<close>

lemma serialize_deserialize_tensor:
  assumes "tp_data_location proto \<noteq> EXTERNAL"
    and "deserialize_tensor proto base_path = Inr t"
  shows "serialize_tensor t = proto"
  using deserialize_tensor_keeps_proto[OF assms] by (auto simp add: serialize_tensor_def)

lemma deserialize_tensor_succeeds_iff:
  assumes "tp_data_location proto \<noteq> EXTERNAL"
  shows "(\<exists>t. deserialize_tensor proto base_path = Inr t) \<longleftrightarrow>
           tp_raw_data proto \<noteq> None
           \<or> tp_data_type proto \<in> compatible_types FloatDataTensor
                \<union> compatible_types Int32DataTensor \<union> compatible_types Int64DataTensor
                \<union> compatible_types DoubleDataTensor \<union> compatible_types UInt64DataTensor"
  using assms by (auto simp add: deserialize_tensor_def new_tensor_def)

text \<open>
  Claim C10 at the failing input: a tensor of strings that is not external and has its
  \<open>string_data\<close> set is not deserialized; the ValueError says that no data field is set.
\<close>

theorem deserialize_tensor_rejects_string_data:
  "tp_data_location string_tensor_proto = DEFAULT
   \<and> tp_string_data string_tensor_proto = [''cat'', ''dog'']
   \<and> data_fields_set string_tensor_proto = 1
   \<and> deserialize_tensor string_tensor_proto [] = Inl (NoDataFields ''labels'')"
  by (simp add: string_tensor_proto_def empty_tensor_proto_def data_fields_set_def
      deserialize_tensor_def compatible_types_def)

section \<open>Properties of the deserialization of nodes and graphs\<close>

lemma bind_err_InrE:
  assumes "bind_err r f = Inr v"
  obtains u where "r = Inr u" and "f u = Inr v"
  using assms by (cases r) (simp_all add: bind_err_def)

lemma same_outer_scopes_refl: "same_outer_scopes st st"
  by (simp add: same_outer_scopes_def)

lemma same_outer_scopes_trans:
  "same_outer_scopes st st1 \<Longrightarrow> same_outer_scopes st1 st2 \<Longrightarrow> same_outer_scopes st st2"
  by (simp add: same_outer_scopes_def)

lemma same_outer_scopes_eq:
  "scoped_values st' = scoped_values st \<Longrightarrow> same_outer_scopes st st'"
  by (simp add: same_outer_scopes_def)

lemma scoped_values_update_value: "scoped_values (update_value r f st) = scoped_values st"
  by (simp add: update_value_def)

lemma scoped_values_new_value: "scoped_values (snd (new_value v st)) = scoped_values st"
  by (simp add: new_value_def)

lemma scoped_values_new_outputs:
  "scoped_values (snd (new_outputs node_name i n st)) = scoped_values st"
  by (induction n arbitrary: i st) (simp_all add: split_beta scoped_values_new_value)

lemma scoped_values_new_inputs: "scoped_values (snd (new_inputs infos st)) = scoped_values st"
  by (induction infos arbitrary: st) (simp_all add: split_beta scoped_values_new_value)

lemma scoped_values_deserialize_value_info_proto:
  "deserialize_value_info_proto proto r st = Inr st' \<Longrightarrow> scoped_values st' = scoped_values st"
  unfolding deserialize_value_info_proto_def
  by (elim bind_err_InrE) (auto simp add: scoped_values_update_value)

lemma scoped_values_deserialize_input_infos:
  "deserialize_input_infos ivs st = Inr st' \<Longrightarrow> scoped_values st' = scoped_values st"
proof (induction ivs arbitrary: st)
  case Nil
  then show ?case by simp
next
  case (Cons iv ivs)
  obtain info val where iv: "iv = (info, val)" by (cases iv)
  from Cons.prems obtain st1 where "deserialize_value_info_proto info val st = Inr st1"
    and "deserialize_input_infos ivs st1 = Inr st'"
    unfolding iv by (auto elim: bind_err_InrE)
  then show ?case
    using Cons.IH scoped_values_deserialize_value_info_proto by metis
qed

lemma scoped_values_deserialize_outputs:
  "deserialize_outputs infos st = Inr (outs, st') \<Longrightarrow> scoped_values st' = scoped_values st"
proof (induction infos arbitrary: st outs)
  case Nil
  then show ?case by simp
next
  case (Cons info infos)
  from Cons.prems obtain val where "map_of (last (scoped_values st)) (vi_name info) = Some val"
    by (cases "map_of (last (scoped_values st)) (vi_name info)") simp_all
  with Cons.prems obtain st1 outs1 where "deserialize_value_info_proto info val st = Inr st1"
    and "deserialize_outputs infos st1 = Inr (outs1, st')"
    by (auto elim!: bind_err_InrE)
  then show ?case
    using Cons.IH scoped_values_deserialize_value_info_proto by metis
qed

lemma same_outer_set_in_innermost:
  "set_in_innermost name value st = Inr st' \<Longrightarrow> same_outer_scopes st st'"
  by (auto simp add: set_in_innermost_def same_outer_scopes_def split: if_splits)

lemma same_outer_register_outputs:
  "register_outputs value_info ovs st = Inr st' \<Longrightarrow> same_outer_scopes st st'"
proof (induction ovs arbitrary: st)
  case Nil
  then show ?case by (simp add: same_outer_scopes_refl)
next
  case (Cons ov ovs)
  obtain out val where ov: "ov = (out, val)" by (cases ov)
  let ?named = "update_value val (\<lambda>v. v\<lparr>v_name := Some out\<rparr>) st"
  from Cons.prems obtain st1 st2 where
      a: "(case map_of value_info out of
            Some info \<Rightarrow> deserialize_value_info_proto info val ?named
          | None \<Rightarrow> Inr ?named) = Inr st1"
      and b: "set_in_innermost out val st1 = Inr st2"
      and c: "register_outputs value_info ovs st2 = Inr st'"
    unfolding ov by (auto elim!: bind_err_InrE)
  from a have "scoped_values st1 = scoped_values st"
    by (auto split: option.splits dest: scoped_values_deserialize_value_info_proto
        simp add: scoped_values_update_value)
  then have "same_outer_scopes st st1" by (rule same_outer_scopes_eq)
  moreover from b have "same_outer_scopes st1 st2" by (rule same_outer_set_in_innermost)
  moreover from c have "same_outer_scopes st2 st'" by (rule Cons.IH)
  ultimately show ?case by (blast intro: same_outer_scopes_trans)
qed

lemma same_outer_add_initializers:
  "add_initializers initializers st = Inr st' \<Longrightarrow> same_outer_scopes st st'"
proof (induction initializers arbitrary: st)
  case Nil
  then show ?case by (simp add: same_outer_scopes_refl)
next
  case (Cons initializer rest)
  show ?case
  proof (cases "map_of (last (scoped_values st)) (tensor_name initializer)")
    case (Some val)
    with Cons.prems have "same_outer_scopes
        (update_value val (\<lambda>v. v\<lparr>v_const_value := Some initializer\<rparr>) st) st'"
      by (auto intro: Cons.IH)
    then show ?thesis
      by (simp add: same_outer_scopes_def scoped_values_update_value)
  next
    case None
    let ?v = "\<lambda>dtype. \<lparr>v_name = Some (tensor_name initializer),
                      v_shape = Some (tensor_shape initializer),
                      v_type = Some (TensorType dtype None),
                      v_const_value = Some initializer, v_producer = None\<rparr>"
    from None Cons.prems obtain dtype st2 where
        b: "set_in_innermost (tensor_name initializer) (fst (new_value (?v dtype) st))
              (snd (new_value (?v dtype) st)) = Inr st2"
        and c: "add_initializers rest st2 = Inr st'"
      by (auto elim!: bind_err_InrE simp add: split_beta)
    from b have "same_outer_scopes (snd (new_value (?v dtype) st)) st2"
      by (rule same_outer_set_in_innermost)
    then have "same_outer_scopes st st2"
      by (simp add: same_outer_scopes_def scoped_values_new_value)
    moreover from c have "same_outer_scopes st2 st'" by (rule Cons.IH)
    ultimately show ?thesis by (blast intro: same_outer_scopes_trans)
  qed
qed

lemma scopes_after_deserialization:
  "(\<forall>g st'. priv_deserialize_graph gp st = Inr (g, st') \<longrightarrow> scoped_values st' = scoped_values st)"
  "(\<forall>ns st'. deserialize_nodes nps value_info st2 = Inr (ns, st') \<longrightarrow> same_outer_scopes st2 st')"
  "(\<forall>n st'. priv_deserialize_node np value_info3 st3 = Inr (n, st') \<longrightarrow> same_outer_scopes st3 st')"
  "(\<forall>as st'. deserialize_attributes aps st4 = Inr (as, st') \<longrightarrow> scoped_values st' = scoped_values st4)"
  "(\<forall>a st'. priv_deserialize_attribute ap st5 = Inr (a, st') \<longrightarrow> scoped_values st' = scoped_values st5)"
  "(\<forall>gs st'. deserialize_graphs gps st6 = Inr (gs, st') \<longrightarrow> scoped_values st' = scoped_values st6)"
proof (induction gp st and nps value_info st2 and np value_info3 st3 and aps st4 and ap st5
         and gps st6
       rule: priv_deserialize_graph_deserialize_nodes_priv_deserialize_node_deserialize_attributes_priv_deserialize_attribute_deserialize_graphs.induct)
  case (1 name doc_string initializer input "output" value_info node st)
  show ?case
  proof (intro allI impI)
    fix g st'
    assume run: "priv_deserialize_graph
        (GraphProto name doc_string initializer input output value_info node) st = Inr (g, st')"
    let ?pushed = "\<lambda>st1. st1\<lparr>scoped_values := scoped_values st1
                    @ [dict_of (zip (map vi_name input) (fst (new_inputs input st)))]\<rparr>"
    from run obtain initializers st1 st2 nodes st3 outputs st4 where
        a: "deserialize_input_infos (zip input (fst (new_inputs input st)))
              (snd (new_inputs input st)) = Inr st1"
        and b: "add_initializers initializers (?pushed st1) = Inr st2"
        and c: "deserialize_nodes node (dict_of (map (\<lambda>info. (vi_name info, info)) value_info)) st2
                  = Inr (nodes, st3)"
        and d: "deserialize_outputs output st3 = Inr (outputs, st4)"
        and e: "st' = st4\<lparr>scoped_values := butlast (scoped_values st4)\<rparr>"
      by (auto elim!: bind_err_InrE)
    from a have s1: "scoped_values st1 = scoped_values st"
      using scoped_values_deserialize_input_infos scoped_values_new_inputs by metis
    from b have "same_outer_scopes (?pushed st1) st2" by (rule same_outer_add_initializers)
    moreover from c have "same_outer_scopes st2 st3" using "1.IH" by blast
    ultimately have "same_outer_scopes (?pushed st1) st3" by (rule same_outer_scopes_trans)
    then have "butlast (scoped_values st3) = scoped_values st1"
      by (simp add: same_outer_scopes_def)
    moreover from d have "scoped_values st4 = scoped_values st3"
      by (rule scoped_values_deserialize_outputs)
    ultimately show "scoped_values st' = scoped_values st"
      using e s1 by simp
  qed
next
  case (2 value_info st)
  show ?case by (simp add: same_outer_scopes_refl)
next
  case (3 proto protos value_info st)
  show ?case
  proof (intro allI impI)
    fix ns st'
    assume "deserialize_nodes (proto # protos) value_info st = Inr (ns, st')"
    then obtain n st1 ns1 where "priv_deserialize_node proto value_info st = Inr (n, st1)"
      and "deserialize_nodes protos value_info st1 = Inr (ns1, st')"
      by (auto elim!: bind_err_InrE)
    then have "same_outer_scopes st st1" and "same_outer_scopes st1 st'"
      using "3.IH" by blast+
    then show "same_outer_scopes st st'" by (rule same_outer_scopes_trans)
  qed
next
  case (4 name domain op_type overload input "output" attribute metadata_props value_info st)
  show ?case
  proof (intro allI impI)
    fix n st'
    assume "priv_deserialize_node
        (NodeProto name domain op_type overload input output attribute metadata_props)
        value_info st = Inr (n, st')"
    then obtain attributes st1 where
        a: "deserialize_attributes attribute st = Inr (attributes, st1)"
        and b: "register_outputs value_info
                 (zip output (fst (new_outputs name 0 (length output) st1)))
                 (snd (new_outputs name 0 (length output) st1)) = Inr st'"
      by (auto elim!: bind_err_InrE)
    from a have "scoped_values st1 = scoped_values st" using "4.IH" by blast
    moreover from b have "same_outer_scopes (snd (new_outputs name 0 (length output) st1)) st'"
      by (rule same_outer_register_outputs)
    ultimately show "same_outer_scopes st st'"
      by (simp add: same_outer_scopes_def scoped_values_new_outputs)
  qed
next
  case (5 st)
  show ?case by simp
next
  case (6 proto protos st)
  show ?case
  proof (intro allI impI)
    fix as st'
    assume "deserialize_attributes (proto # protos) st = Inr (as, st')"
    then obtain a st1 as1 where "priv_deserialize_attribute proto st = Inr (a, st1)"
      and "deserialize_attributes protos st1 = Inr (as1, st')"
      by (auto elim!: bind_err_InrE)
    then show "scoped_values st' = scoped_values st"
      using "6.IH" by metis
  qed
next
  case (7 name doc_string type ref_attr_name i f s ints floats strings t tensors g graphs st)
  show ?case
  proof (intro allI impI)
    fix a st'
    assume run: "priv_deserialize_attribute
        (AttributeProto name doc_string type ref_attr_name i f s ints floats strings t tensors
           g graphs) st = Inr (a, st')"
    then obtain attr_type where ty: "AttributeType type = Inr attr_type"
      by (auto elim!: bind_err_InrE)
    show "scoped_values st' = scoped_values st"
    proof (cases "ref_attr_name \<noteq> None \<and> ref_attr_name \<noteq> Some []")
      case True
      with run ty show ?thesis by (simp add: bind_err_simps)
    next
      case noref: False
      consider (graph) "attr_type = AttributeType_GRAPH"
        | (graphs) "attr_type = AttributeType_GRAPHS"
        | (other) "attr_type \<noteq> AttributeType_GRAPH" "attr_type \<noteq> AttributeType_GRAPHS"
        by blast
      then show ?thesis
      proof cases
        case graph
        with run ty noref obtain gr where "priv_deserialize_graph g st = Inr (gr, st')"
          by (auto simp add: bind_err_simps elim!: bind_err_InrE)
        with "7.IH"(1)[of attr_type] noref graph show ?thesis by simp
      next
        case graphs
        with run ty noref obtain gs where "deserialize_graphs graphs st = Inr (gs, st')"
          by (auto simp add: bind_err_simps elim!: bind_err_InrE)
        with "7.IH"(2)[of attr_type] noref graphs show ?thesis by simp
      next
        case other
        with run ty noref show ?thesis
          by (auto simp add: bind_err_simps split: if_splits option.splits elim!: bind_err_InrE)
      qed
    qed
  qed
next
  case (8 st)
  show ?case by simp
next
  case (9 proto protos st)
  show ?case
  proof (intro allI impI)
    fix gs st'
    assume "deserialize_graphs (proto # protos) st = Inr (gs, st')"
    then obtain g st1 gs1 where "priv_deserialize_graph proto st = Inr (g, st1)"
      and "deserialize_graphs protos st1 = Inr (gs1, st')"
      by (auto elim!: bind_err_InrE)
    then show "scoped_values st' = scoped_values st"
      using "9.IH" by metis
  qed
qed

lemma find_value_None_iff:
  "find_value scopes name = None \<longleftrightarrow> (\<forall>values\<in>set scopes. map_of values name = None)"
  by (induction scopes) (auto split: option.splits)

lemma find_value_innermost_first:
  "find_value (rev (outer @ [inner])) name =
     (case map_of inner name of Some v \<Rightarrow> Some v | None \<Rightarrow> find_value (rev outer) name)"
  by simp

lemma resolve_inputs_Inr:
  assumes "resolve_inputs node_name scoped names = Inr node_inputs"
  shows "node_inputs = map (resolved scoped) names
     \<and> (\<forall>name\<in>set names. name \<noteq> [] \<longrightarrow> find_value (rev scoped) name \<noteq> None)"
  using assms
proof (induction names arbitrary: node_inputs)
  case Nil
  then show ?case by simp
next
  case (Cons name names)
  from Cons.prems obtain rest where rest: "resolve_inputs node_name scoped names = Inr rest"
    by (auto split: if_splits option.splits elim!: bind_err_InrE)
  from Cons.IH[OF rest] Cons.prems rest show ?case
    by (auto simp add: resolved_def bind_err_simps split: if_splits option.splits)
qed

lemma resolve_inputs_Inl:
  assumes "name \<in> set names" and "name \<noteq> []" and "find_value (rev scoped) name = None"
  shows "\<exists>missing\<in>set names. missing \<noteq> [] \<and> find_value (rev scoped) missing = None
           \<and> resolve_inputs node_name scoped names
               = Inl (InputNotFound missing node_name (length scoped))"
  using assms
proof (induction names)
  case Nil
  then show ?case by simp
next
  case (Cons first names)
  show ?case
  proof (cases "first \<noteq> [] \<and> find_value (rev scoped) first = None")
    case True
    then show ?thesis by auto
  next
    case False
    with Cons.prems have "name \<in> set names" by auto
    from Cons.IH[OF this Cons.prems(2,3)] obtain missing where
        m: "missing \<in> set names" "missing \<noteq> []" "find_value (rev scoped) missing = None"
        "resolve_inputs node_name scoped names
           = Inl (InputNotFound missing node_name (length scoped))"
      by blast
    with False show ?thesis
      by (cases "first = []") (auto simp add: bind_err_simps split: option.splits)
  qed
qed

lemma priv_deserialize_node_inputs:
  assumes "priv_deserialize_node proto value_info st = Inr (node, st')"
  shows "resolve_inputs (np_name proto) (scoped_values st) (np_input proto) = Inr (n_inputs node)"
  using assms
  by (cases proto) (auto elim!: bind_err_InrE)

lemma priv_deserialize_node_missing_input:
  assumes "resolve_inputs (np_name proto) (scoped_values st) (np_input proto) = Inl e"
  shows "priv_deserialize_node proto value_info st = Inl e"
  using assms
  by (cases proto) (auto simp add: bind_err_simps)

lemma resolved_innermost_first:
  "resolved (outer @ [values]) =
     (\<lambda>name. if name = [] then None
             else (case map_of values name of
                     Some v \<Rightarrow> Some v
                   | None \<Rightarrow> find_value (rev outer) name))"
  by (rule ext) (simp add: resolved_def)

lemmas serde_eval = bind_err_simps new_value_def update_value_def set_in_innermost_def dict_of_def
  deserialize_value_info_proto_def AttributeType_def no_type_def example_value_def

lemma example_inner_node_run:
  "priv_deserialize_node example_inner_node [] example_outer_state =
     Inr (Node [] ''Identity'' [Some 0, None] [] [] [1] ''inner'' [],
          \<lparr>store = [example_value ''x'' None, example_value ''y'' (Some (''inner'', 0))],
           scoped_values = [[(''x'', 0), (''y'', 1)]]\<rparr>)"
  by (simp add: example_inner_node_def example_outer_state_def serde_eval)

lemma example_late_node_run:
  "priv_deserialize_node example_late_node [] example_outer_state =
     Inl (InputNotFound ''y'' ''late'' 1)"
  by (simp add: example_late_node_def example_outer_state_def serde_eval)

lemma example_inner_graph_run:
  "priv_deserialize_graph example_inner_graph example_outer_state =
     Inr (Graph [] [1] [Node [] ''Identity'' [Some 0, None] [] [] [1] ''inner'' []] []
            None (Some ''then_branch''),
          \<lparr>store = [example_value ''x'' None, example_value ''y'' (Some (''inner'', 0))],
           scoped_values = [[(''x'', 0)]]\<rparr>)"
  by (simp add: example_inner_graph_def example_inner_node_def example_outer_state_def serde_eval)

lemma example_outer_graph_run:
  "deserialize_graph example_outer_graph = Inl (InputNotFound ''y'' ''late'' 1)"
  by (simp add: deserialize_graph_def initial_state_def example_outer_graph_def
      example_if_node_def example_late_node_def
      example_inner_graph_def example_inner_node_def serde_eval)

text \<open>
  Claim C7. \<open>_deserialize_node\<close> enforces definition before use. If some input name of
  the node proto is not empty and no scope of the stack defines it, deserialization fails
  with the ValueError that names such an input (the first one), the node and the depth of
  the stack. If deserialization succeeds, every input name that is not empty is defined
  in a scope of the stack and is resolved from the innermost scope outwards, and an empty
  input name is the missing input \<open>None\<close>.
\<close>

theorem deserialize_node_definition_before_use:
  "((\<exists>name\<in>set (np_input proto). name \<noteq> []
        \<and> (\<forall>values\<in>set (scoped_values st). map_of values name = None))
     \<longrightarrow> (\<exists>missing\<in>set (np_input proto). missing \<noteq> []
            \<and> (\<forall>values\<in>set (scoped_values st). map_of values missing = None)
            \<and> priv_deserialize_node proto value_info st
                = Inl (InputNotFound missing (np_name proto) (length (scoped_values st)))))
   \<and> (priv_deserialize_node proto value_info st = Inr (node, st')
     \<longrightarrow> n_inputs node
           = map (\<lambda>name. if name = [] then None else find_value (rev (scoped_values st)) name)
               (np_input proto)
         \<and> (\<forall>name\<in>set (np_input proto). name \<noteq> []
              \<longrightarrow> (\<exists>values\<in>set (scoped_values st). map_of values name \<noteq> None)))"
proof (intro conjI impI)
  assume "\<exists>name\<in>set (np_input proto). name \<noteq> []
        \<and> (\<forall>values\<in>set (scoped_values st). map_of values name = None)"
  then obtain name where "name \<in> set (np_input proto)" "name \<noteq> []"
    "find_value (rev (scoped_values st)) name = None"
    by (auto simp add: find_value_None_iff)
  from resolve_inputs_Inl[OF this, of "np_name proto"]
  show "\<exists>missing\<in>set (np_input proto). missing \<noteq> []
            \<and> (\<forall>values\<in>set (scoped_values st). map_of values missing = None)
            \<and> priv_deserialize_node proto value_info st
                = Inl (InputNotFound missing (np_name proto) (length (scoped_values st)))"
    by (auto simp add: find_value_None_iff dest: priv_deserialize_node_missing_input)
next
  assume ok: "priv_deserialize_node proto value_info st = Inr (node, st')"
  from resolve_inputs_Inr[OF priv_deserialize_node_inputs[OF ok]]
  show "n_inputs node
           = map (\<lambda>name. if name = [] then None else find_value (rev (scoped_values st)) name)
               (np_input proto)"
    and "\<forall>name\<in>set (np_input proto). name \<noteq> []
              \<longrightarrow> (\<exists>values\<in>set (scoped_values st). map_of values name \<noteq> None)"
    by (auto simp add: resolved_def[abs_def] find_value_None_iff)
qed

theorem deserialize_node_definition_before_use_witness:
  "priv_deserialize_node example_late_node [] example_outer_state
     = Inl (InputNotFound ''y'' ''late'' 1)
   \<and> priv_deserialize_node example_inner_node [] example_outer_state
       = Inr (Node [] ''Identity'' [Some 0, None] [] [] [1] ''inner'' [],
              \<lparr>store = [example_value ''x'' None, example_value ''y'' (Some (''inner'', 0))],
               scoped_values = [[(''x'', 0), (''y'', 1)]]\<rparr>)
   \<and> map (\<lambda>name. if name = [] then None
                     else find_value (rev (scoped_values example_outer_state)) name)
         (np_input example_inner_node) = [Some 0, None]"
proof -
  let ?node = "Node [] ''Identity'' [Some 0, None] [] [] [1] ''inner'' []"
  let ?st = "\<lparr>store = [example_value ''x'' None, example_value ''y'' (Some (''inner'', 0))],
               scoped_values = [[(''x'', 0), (''y'', 1)]]\<rparr>"
  have "\<exists>name\<in>set (np_input example_late_node). name \<noteq> []
          \<and> (\<forall>values\<in>set (scoped_values example_outer_state). map_of values name = None)"
    by (simp add: example_late_node_def example_outer_state_def)
  with deserialize_node_definition_before_use
         [of example_late_node example_outer_state "[]" ?node ?st]
  have "\<exists>missing\<in>set (np_input example_late_node).
          priv_deserialize_node example_late_node [] example_outer_state
            = Inl (InputNotFound missing (np_name example_late_node)
                     (length (scoped_values example_outer_state)))"
    by blast
  then have late: "priv_deserialize_node example_late_node [] example_outer_state
     = Inl (InputNotFound ''y'' ''late'' 1)"
    by (simp add: example_late_node_def example_outer_state_def)
  from deserialize_node_definition_before_use
         [of example_inner_node example_outer_state "[]" ?node ?st] example_inner_node_run
  have "n_inputs ?node
          = map (\<lambda>name. if name = [] then None
                     else find_value (rev (scoped_values example_outer_state)) name)
              (np_input example_inner_node)"
    by blast
  with late example_inner_node_run show ?thesis by simp
qed

lemma keys_dict_set: "fst ` set (dict_set k v d) = insert k (fst ` set d)"
  by (induction d) force+

lemma map_of_dict_set: "map_of (dict_set k v d) = (map_of d)(k \<mapsto> v)"
  by (induction d) (auto simp add: fun_eq_iff)

lemma keys_fold_dict_set:
  "fst ` set (fold (\<lambda>(k, v). dict_set k v) kvs d) = fst ` set kvs \<union> fst ` set d"
  by (induction kvs arbitrary: d) (force simp add: keys_dict_set)+

lemma length_new_inputs: "length (fst (new_inputs infos st)) = length infos"
  by (induction infos arbitrary: st) (simp_all add: split_beta)

lemma scope_after_register_outputs:
  assumes "register_outputs value_info ovs st = Inr st'"
    and "scoped_values st = outer @ [scope]"
  shows "scoped_values st' = outer @ [fold (\<lambda>(output, value). dict_set output value) ovs scope]"
  using assms
proof (induction ovs arbitrary: st scope)
  case Nil
  then show ?case by simp
next
  case (Cons ov ovs)
  obtain out val where ov: "ov = (out, val)" by (cases ov)
  let ?named = "update_value val (\<lambda>v. v\<lparr>v_name := Some out\<rparr>) st"
  from Cons.prems(1) obtain st1 st2 where
      a: "(case map_of value_info out of
            Some info \<Rightarrow> deserialize_value_info_proto info val ?named
          | None \<Rightarrow> Inr ?named) = Inr st1"
      and b: "set_in_innermost out val st1 = Inr st2"
      and c: "register_outputs value_info ovs st2 = Inr st'"
    unfolding ov by (auto elim!: bind_err_InrE)
  from a have "scoped_values st1 = scoped_values st"
    by (auto split: option.splits dest: scoped_values_deserialize_value_info_proto
        simp add: scoped_values_update_value)
  with b Cons.prems(2) have "scoped_values st2 = outer @ [dict_set out val scope]"
    by (auto simp add: set_in_innermost_def split: if_splits)
  from Cons.IH[OF c this] show ?case by (simp add: ov)
qed

lemma scope_after_node:
  assumes "priv_deserialize_node proto value_info st = Inr (node, st')"
    and "scoped_values st = outer @ [scope]"
  shows "scoped_values st' =
           outer @ [fold (\<lambda>(output, value). dict_set output value)
                      (zip (np_output proto) (n_outputs node)) scope]"
proof -
  obtain name domain op_type overload input outp attribute metadata_props where
    proto: "proto = NodeProto name domain op_type overload input outp attribute metadata_props"
    by (cases proto)
  from assms(1) obtain node_inputs attributes st1 where
      a: "deserialize_attributes attribute st = Inr (attributes, st1)"
      and b: "register_outputs value_info
                 (zip outp (fst (new_outputs name 0 (length outp) st1)))
                 (snd (new_outputs name 0 (length outp) st1)) = Inr st'"
      and n: "node = Node domain op_type node_inputs attributes overload
              (fst (new_outputs name 0 (length outp) st1)) name (dict_of metadata_props)"
    unfolding proto by (auto elim!: bind_err_InrE)
  from a have "scoped_values st1 = scoped_values st"
    using scopes_after_deserialization(4) by blast
  with assms(2) have "scoped_values (snd (new_outputs name 0 (length outp) st1)) = outer @ [scope]"
    by (simp add: scoped_values_new_outputs)
  from scope_after_register_outputs[OF b this] show ?thesis
    by (simp add: proto n)
qed

lemma deserialize_nodes_own_scope:
  assumes "deserialize_nodes protos value_info st = Inr (nodes, st')"
    and "scoped_values st = outer @ [scope]"
  shows "length nodes = length protos
     \<and> (\<forall>i<length protos.
          n_inputs (nodes ! i) =
            map (resolved (outer @ [own_scope scope (take i protos) (take i nodes)]))
              (np_input (protos ! i)))"
  using assms
proof (induction protos arbitrary: st nodes scope)
  case Nil
  then show ?case by simp
next
  case (Cons proto protos)
  from Cons.prems(1) obtain node st1 rest where
      n: "priv_deserialize_node proto value_info st = Inr (node, st1)"
      and r: "deserialize_nodes protos value_info st1 = Inr (rest, st')"
      and nodes: "nodes = node # rest"
    by (auto elim!: bind_err_InrE)
  let ?next = "fold (\<lambda>(output, value). dict_set output value)
                 (zip (np_output proto) (n_outputs node)) scope"
  from resolve_inputs_Inr[OF priv_deserialize_node_inputs[OF n]] Cons.prems(2)
  have here: "n_inputs node = map (resolved (outer @ [scope])) (np_input proto)"
    by simp
  from scope_after_node[OF n Cons.prems(2)]
  have "scoped_values st1 = outer @ [?next]" .
  from Cons.IH[OF r this]
  have len: "length rest = length protos"
    and later: "\<And>i. i < length protos \<Longrightarrow>
          n_inputs (rest ! i) =
            map (resolved (outer @ [own_scope ?next (take i protos) (take i rest)]))
              (np_input (protos ! i))"
    by simp_all
  show ?case
  proof (intro conjI allI impI)
    show "length nodes = length (proto # protos)" using len nodes by simp
  next
    fix i
    assume "i < length (proto # protos)"
    then show "n_inputs (nodes ! i) =
            map (resolved (outer @ [own_scope scope (take i (proto # protos)) (take i nodes)]))
              (np_input ((proto # protos) ! i))"
    proof (cases i)
      case 0
      then show ?thesis using here nodes by (simp add: own_scope_def)
    next
      case (Suc j)
      with \<open>i < length (proto # protos)\<close> have "j < length protos" by simp
      from later[OF this] Suc nodes show ?thesis by (simp add: own_scope_def)
    qed
  qed
qed

lemma scope_after_add_initializers:
  assumes "add_initializers initializers st = Inr st'"
    and "scoped_values st = outer @ [scope]"
  shows "\<exists>scope1. scoped_values st' = outer @ [scope1]
     \<and> fst ` set scope1 = fst ` set scope \<union> tensor_name ` set initializers
     \<and> (\<forall>name\<in>fst ` set scope. map_of scope1 name = map_of scope name)"
  using assms
proof (induction initializers arbitrary: st scope)
  case Nil
  then show ?case by simp
next
  case (Cons initializer rest)
  show ?case
  proof (cases "map_of scope (tensor_name initializer)")
    case (Some val)
    let ?st = "update_value val (\<lambda>v. v\<lparr>v_const_value := Some initializer\<rparr>) st"
    from Some Cons.prems have run: "add_initializers rest ?st = Inr st'"
      by simp
    have "scoped_values ?st = outer @ [scope]"
      using Cons.prems(2) by (simp add: scoped_values_update_value)
    from Cons.IH[OF run this] obtain scope1 where
        v: "scoped_values st' = outer @ [scope1]"
           "fst ` set scope1 = fst ` set scope \<union> tensor_name ` set rest"
           "\<forall>name\<in>fst ` set scope. map_of scope1 name = map_of scope name"
      by blast
    from Some have "tensor_name initializer \<in> fst ` set scope"
      by (auto dest: map_of_SomeD intro: rev_image_eqI)
    with v show ?thesis by auto
  next
    case None
    let ?v = "\<lambda>dtype. \<lparr>v_name = Some (tensor_name initializer),
                      v_shape = Some (tensor_shape initializer),
                      v_type = Some (TensorType dtype None),
                      v_const_value = Some initializer, v_producer = None\<rparr>"
    from None Cons.prems obtain dtype st2 where
        b: "set_in_innermost (tensor_name initializer) (fst (new_value (?v dtype) st))
              (snd (new_value (?v dtype) st)) = Inr st2"
        and c: "add_initializers rest st2 = Inr st'"
      by (auto elim!: bind_err_InrE simp add: split_beta)
    let ?extended = "dict_set (tensor_name initializer) (fst (new_value (?v dtype) st)) scope"
    from b Cons.prems(2) have "scoped_values st2 = outer @ [?extended]"
      by (auto simp add: set_in_innermost_def scoped_values_new_value split: if_splits)
    from Cons.IH[OF c this] obtain scope1 where
        v: "scoped_values st' = outer @ [scope1]"
           "fst ` set scope1 = fst ` set ?extended \<union> tensor_name ` set rest"
           "\<forall>name\<in>fst ` set ?extended. map_of scope1 name = map_of ?extended name"
      by blast
    from None have notin: "tensor_name initializer \<notin> fst ` set scope"
      by (simp add: map_of_eq_None_iff)
    from v(2) have keys: "fst ` set scope1 = fst ` set scope \<union> tensor_name ` set (initializer # rest)"
      by (simp add: keys_dict_set)
    have keep: "\<forall>name\<in>fst ` set scope. map_of scope1 name = map_of scope name"
    proof
      fix name
      assume a: "name \<in> fst ` set scope"
      with notin have "name \<noteq> tensor_name initializer" by blast
      then have other: "map_of ?extended name = map_of scope name"
        by (simp add: map_of_dict_set)
      from a have "name \<in> fst ` set ?extended" by (simp only: keys_dict_set insert_iff simp_thms)
      with v(3) have "map_of scope1 name = map_of ?extended name" by blast
      with other show "map_of scope1 name = map_of scope name" by simp
    qed
    from v(1) keys keep show ?thesis by blast
  qed
qed

lemma keys_dict_of_zip:
  "length ks = length vs \<Longrightarrow> fst ` set (dict_of (zip ks vs)) = set ks"
proof -
  assume "length ks = length vs"
  then have "fst ` set (zip ks vs) = set ks"
    by (metis map_fst_zip set_map)
  then show ?thesis
    by (simp only: dict_of_def keys_fold_dict_set) simp
qed

lemma example_shadowing_graph_run:
  "priv_deserialize_graph example_shadowing_graph example_outer_state =
     Inr (Graph [1] [3]
            [Node [] ''Identity'' [Some 0] [] [] [2] ''first'' [],
             Node [] ''Sum'' [Some 2, Some 1, None] [] [] [3] ''second'' []]
            [] None (Some ''else_branch''),
          \<lparr>store = [example_value ''x'' None, example_value ''u'' None,
                    example_value ''x'' (Some (''first'', 0)),
                    example_value ''y'' (Some (''second'', 0))],
           scoped_values = [[(''x'', 0)]]\<rparr>)"
  by (simp add: example_shadowing_graph_def example_outer_state_def serde_eval)

text \<open>
  Claim C8. Scopes are nested. When \<open>_deserialize_graph\<close> returns, the stack of scopes is
  the one it was called with: the scope of the graph is popped and no enclosing scope was
  written to, so nothing that the graph defined is in a scope that a node of the
  enclosing graph searches. While the graph is deserialized its own scope \<open>values\<close> holds the
  names of its inputs and of its initializers (an input name is bound to the input value
  of the graph), and, when the node number \<open>i\<close> is reached, the outputs of the nodes before
  it. The node number \<open>i\<close> resolves every input name that is not empty in this scope first,
  and a name that this scope lacks in the enclosing scopes, which are those of the
  caller, the innermost first.
\<close>

theorem subgraph_scopes_are_nested:
  assumes "priv_deserialize_graph proto st = Inr (graph, st')"
  shows "scoped_values st' = scoped_values st
     \<and> length (g_nodes graph) = length (gp_node proto)
     \<and> (\<exists>values.
          fst ` set values
            = vi_name ` set (gp_input proto) \<union> tensor_name ` set (g_initializers graph)
          \<and> (\<forall>name\<in>vi_name ` set (gp_input proto).
                map_of values name
                  = map_of (dict_of (zip (map vi_name (gp_input proto)) (g_inputs graph))) name)
          \<and> (\<forall>i<length (gp_node proto).
                n_inputs (g_nodes graph ! i) =
                  map (\<lambda>name. if name = [] then None
                               else (case map_of (own_scope values (take i (gp_node proto))
                                                    (take i (g_nodes graph))) name of
                                       Some v \<Rightarrow> Some v
                                     | None \<Rightarrow> find_value (rev (scoped_values st)) name))
                    (np_input (gp_node proto ! i))))"
proof (intro conjI)
  from assms show "scoped_values st' = scoped_values st"
    using scopes_after_deserialization(1) by blast
next
  obtain name doc_string initializer input outp value_info node where
    proto: "proto = GraphProto name doc_string initializer input outp value_info node"
    by (cases proto)
  let ?inputs = "dict_of (zip (map vi_name input) (fst (new_inputs input st)))"
  let ?pushed = "\<lambda>st1. st1\<lparr>scoped_values := scoped_values st1 @ [?inputs]\<rparr>"
  from assms obtain initializers st1 st2 nodes st3 outputs where
      a: "deserialize_input_infos (zip input (fst (new_inputs input st)))
            (snd (new_inputs input st)) = Inr st1"
      and b: "add_initializers initializers (?pushed st1) = Inr st2"
      and c: "deserialize_nodes node (dict_of (map (\<lambda>info. (vi_name info, info)) value_info)) st2
                = Inr (nodes, st3)"
      and g: "graph = Graph (fst (new_inputs input st)) outputs nodes initializers doc_string name"
    unfolding proto by (auto elim!: bind_err_InrE)
  from a have s1: "scoped_values st1 = scoped_values st"
    using scoped_values_deserialize_input_infos scoped_values_new_inputs by metis
  then have "scoped_values (?pushed st1) = scoped_values st @ [?inputs]" by simp
  from scope_after_add_initializers[OF b this] obtain scope where
      s2: "scoped_values st2 = scoped_values st @ [scope]"
      and keys: "fst ` set scope = fst ` set ?inputs \<union> tensor_name ` set initializers"
      and keep: "\<forall>name\<in>fst ` set ?inputs. map_of scope name = map_of ?inputs name"
    by blast
  have inputs: "fst ` set ?inputs = vi_name ` set input"
    by (simp add: keys_dict_of_zip length_new_inputs)
  from deserialize_nodes_own_scope[OF c s2]
  have len: "length nodes = length node"
    and res: "\<forall>i<length node.
          n_inputs (nodes ! i) =
            map (resolved (scoped_values st @ [own_scope scope (take i node) (take i nodes)]))
              (np_input (node ! i))"
    by simp_all
  from len show "length (g_nodes graph) = length (gp_node proto)"
    by (simp add: proto g)
  have "fst ` set scope
            = vi_name ` set (gp_input proto) \<union> tensor_name ` set (g_initializers graph)"
    using keys inputs by (simp add: proto g)
  moreover have "\<forall>name\<in>vi_name ` set (gp_input proto).
                map_of scope name
                  = map_of (dict_of (zip (map vi_name (gp_input proto)) (g_inputs graph))) name"
    using keep inputs by (simp add: proto g)
  moreover have "\<forall>i<length (gp_node proto).
                n_inputs (g_nodes graph ! i) =
                  map (\<lambda>name. if name = [] then None
                               else (case map_of (own_scope scope (take i (gp_node proto))
                                                    (take i (g_nodes graph))) name of
                                       Some v \<Rightarrow> Some v
                                     | None \<Rightarrow> find_value (rev (scoped_values st)) name))
                    (np_input (gp_node proto ! i))"
    using res unfolding resolved_innermost_first by (simp add: proto g)
  ultimately show "\<exists>values.
          fst ` set values
            = vi_name ` set (gp_input proto) \<union> tensor_name ` set (g_initializers graph)
          \<and> (\<forall>name\<in>vi_name ` set (gp_input proto).
                map_of values name
                  = map_of (dict_of (zip (map vi_name (gp_input proto)) (g_inputs graph))) name)
          \<and> (\<forall>i<length (gp_node proto).
                n_inputs (g_nodes graph ! i) =
                  map (\<lambda>name. if name = [] then None
                               else (case map_of (own_scope values (take i (gp_node proto))
                                                    (take i (g_nodes graph))) name of
                                       Some v \<Rightarrow> Some v
                                     | None \<Rightarrow> find_value (rev (scoped_values st)) name))
                    (np_input (gp_node proto ! i)))"
    by blast
qed

theorem subgraph_scopes_are_nested_witness:
  "priv_deserialize_graph example_shadowing_graph example_outer_state =
     Inr (Graph [1] [3]
            [Node [] ''Identity'' [Some 0] [] [] [2] ''first'' [],
             Node [] ''Sum'' [Some 2, Some 1, None] [] [] [3] ''second'' []]
            [] None (Some ''else_branch''),
          \<lparr>store = [example_value ''x'' None, example_value ''u'' None,
                    example_value ''x'' (Some (''first'', 0)),
                    example_value ''y'' (Some (''second'', 0))],
           scoped_values = [[(''x'', 0)]]\<rparr>)
   \<and> scoped_values example_outer_state = [[(''x'', 0)]]
   \<and> (\<exists>values. fst ` set values = {''u''} \<and> map_of values ''u'' = Some 1
        \<and> [Some 0] =
            map (\<lambda>name. if name = [] then None
                         else (case map_of values name of
                                 Some v \<Rightarrow> Some v
                               | None \<Rightarrow> find_value [[(''x'', 0)]] name))
              [''x'']
        \<and> [Some 2, Some 1, None] =
            map (\<lambda>name. if name = [] then None
                         else (case map_of (dict_set ''x'' 2 values) name of
                                 Some v \<Rightarrow> Some v
                               | None \<Rightarrow> find_value [[(''x'', 0)]] name))
              [''x'', ''u'', []])
   \<and> deserialize_graph example_outer_graph = Inl (InputNotFound ''y'' ''late'' 1)"
proof -
  let ?first = "Node [] ''Identity'' [Some 0] [] [] [2] ''first'' []"
  let ?second = "Node [] ''Sum'' [Some 2, Some 1, None] [] [] [3] ''second'' []"
  let ?G = "Graph [1] [3] [?first, ?second] [] None (Some ''else_branch'')"
  let ?resolve = "\<lambda>scope name. if name = [] then None
                         else (case map_of scope name of
                                 Some v \<Rightarrow> Some v
                               | None \<Rightarrow> find_value [[(''x'', 0::nat)]] name)"
  note nested = subgraph_scopes_are_nested[OF example_shadowing_graph_run]
  have outer: "scoped_values example_outer_state = [[(''x'', 0)]]"
    by (simp add: example_outer_state_def)
  have rev_outer: "rev (scoped_values example_outer_state) = [[(''x'', 0)]]"
    by (simp add: example_outer_state_def)
  have protos: "gp_node example_shadowing_graph =
                  [NodeProto ''first'' [] ''Identity'' [] [''x''] [''x''] [] [],
                   NodeProto ''second'' [] ''Sum'' [] [''x'', ''u'', []] [''y''] [] []]"
    and ins: "gp_input example_shadowing_graph = [\<lparr>vi_name = ''u'', vi_type = no_type\<rparr>]"
    by (simp_all add: example_shadowing_graph_def)
  from nested[THEN conjunct2, THEN conjunct2] obtain scope where
      tied: "fst ` set scope = vi_name ` set (gp_input example_shadowing_graph)
               \<union> tensor_name ` set (g_initializers ?G)
        \<and> (\<forall>name\<in>vi_name ` set (gp_input example_shadowing_graph).
             map_of scope name
               = map_of (dict_of (zip (map vi_name (gp_input example_shadowing_graph))
                                    (g_inputs ?G))) name)
        \<and> (\<forall>i<length (gp_node example_shadowing_graph).
             n_inputs (g_nodes ?G ! i) =
               map (\<lambda>name. if name = [] then None
                            else (case map_of (own_scope scope
                                                 (take i (gp_node example_shadowing_graph))
                                                 (take i (g_nodes ?G))) name of
                                    Some v \<Rightarrow> Some v
                                  | None \<Rightarrow> find_value (rev (scoped_values example_outer_state))
                                             name))
                 (np_input (gp_node example_shadowing_graph ! i)))" ..
  note keys = tied[THEN conjunct1]
  note inputs = tied[THEN conjunct2, THEN conjunct1]
  note nodes = tied[THEN conjunct2, THEN conjunct2, rule_format]
  from keys have k: "fst ` set scope = {''u''}"
    by (simp add: ins)
  from inputs have u: "map_of scope ''u'' = Some 1"
    by (simp add: ins dict_of_def)
  have "0 < length (gp_node example_shadowing_graph)" by (simp add: protos)
  from nodes[OF this] have first: "[Some 0] = map (?resolve scope) [''x'']"
    unfolding rev_outer protos by (simp add: own_scope_def)
  have "Suc 0 < length (gp_node example_shadowing_graph)" by (simp add: protos)
  from nodes[OF this]
  have second: "[Some 2, Some 1, None]
                  = map (?resolve (dict_set ''x'' 2 scope)) [''x'', ''u'', []]"
    unfolding rev_outer protos by (simp add: own_scope_def)
  show ?thesis
  proof (intro conjI)
    show "priv_deserialize_graph example_shadowing_graph example_outer_state =
     Inr (Graph [1] [3]
            [Node [] ''Identity'' [Some 0] [] [] [2] ''first'' [],
             Node [] ''Sum'' [Some 2, Some 1, None] [] [] [3] ''second'' []]
            [] None (Some ''else_branch''),
          \<lparr>store = [example_value ''x'' None, example_value ''u'' None,
                    example_value ''x'' (Some (''first'', 0)),
                    example_value ''y'' (Some (''second'', 0))],
           scoped_values = [[(''x'', 0)]]\<rparr>)"
      by (rule example_shadowing_graph_run)
    show "scoped_values example_outer_state = [[(''x'', 0)]]"
      by (rule outer)
    show "\<exists>values. fst ` set values = {''u''} \<and> map_of values ''u'' = Some 1
        \<and> [Some 0] = map (?resolve values) [''x'']
        \<and> [Some 2, Some 1, None] = map (?resolve (dict_set ''x'' 2 values)) [''x'', ''u'', []]"
      by (rule exI[of _ scope]) (intro conjI k u first second)
    show "deserialize_graph example_outer_graph = Inl (InputNotFound ''y'' ''late'' 1)"
      by (rule example_outer_graph_run)
  qed
qed

section \<open>Properties of the rewrite rules\<close>



lemmas template_defs = Reshape_def MatMul_def Add_def Gemm_def
  two_reshapes_matmul_reshape_pattern_def matmul_with_two_shape_inputs_def
  one_reshape_matmul_reshape_pattern_def matmul_with_one_shape_input_def
  reshape_gemm_reshape_pattern_def matmul_add_def



lemmas example_defs = example_tensor_value_def example_shape_constant_def example_call_def
  example_anchor_def example_reshape_a_def example_two_reshapes_graph_def
  example_one_reshape_graph_def example_gemm_graph_def

lemmas matcher_defs = match_at_def node_matches_def producer_def consumers_def exclusive_def
  bound_values_def try_rewrite_def

lemmas guard_defs = check_if_need_reshape_def lookup_binding_def bind_err_simps check_shapes_def
  broadcast_matmul_output_shape_def pad_input_a_def pad_input_b_def py_last_def
  py_second_last_def py_drop_last_def compare_output_shape_def tolist_def

lemma example_larger_rule_rejected:
  "try_rewrite (example_two_reshapes_graph [5, 4]) two_reshapes_matmul_reshape_rule example_anchor
     = Inr None"
  by (simp add: two_reshapes_matmul_reshape_rule_def template_defs matcher_defs example_defs
      guard_defs)

lemma example_larger_pattern_matches:
  "match_at (example_two_reshapes_graph [5, 4]) (target_pattern two_reshapes_matmul_reshape_rule)
     example_anchor =
   Some [''input_a'' \<mapsto> example_tensor_value ''a'' [2, 3, 4],
         ''shape_a'' \<mapsto> example_shape_constant ''shape_a'' [6, 4],
         ''input_b'' \<mapsto> example_tensor_value ''b'' [5, 4],
         ''shape_b'' \<mapsto> example_shape_constant ''shape_b'' [4, 5],
         ''shape_c'' \<mapsto> example_shape_constant ''shape_c'' [2, 3, 5]]"
  by (simp add: two_reshapes_matmul_reshape_rule_def template_defs matcher_defs example_defs)

lemma example_smaller_pattern_matches:
  "match_at (example_two_reshapes_graph [5, 4]) (target_pattern one_reshape_matmul_reshape_rule)
     example_anchor =
   Some [''input_a'' \<mapsto> example_tensor_value ''a'' [2, 3, 4],
         ''shape_a'' \<mapsto> example_shape_constant ''shape_a'' [6, 4],
         ''input_b'' \<mapsto> example_tensor_value ''rb'' [4, 5],
         ''shape_c'' \<mapsto> example_shape_constant ''shape_c'' [2, 3, 5]]"
  by (simp add: one_reshape_matmul_reshape_rule_def template_defs matcher_defs example_defs)

lemma example_smaller_rule_accepted:
  "try_rewrite (example_two_reshapes_graph [5, 4]) one_reshape_matmul_reshape_rule example_anchor
     = Inr (Some (MatMul (Var (example_tensor_value ''a'' [2, 3, 4]))
                         (Var (example_tensor_value ''rb'' [4, 5]))))"
  by (simp add: one_reshape_matmul_reshape_rule_def template_defs matcher_defs example_defs
      guard_defs)

lemma example_larger_rule_accepted:
  "try_rewrite (example_two_reshapes_graph [4, 5]) two_reshapes_matmul_reshape_rule example_anchor
     = Inr (Some (MatMul (Var (example_tensor_value ''a'' [2, 3, 4]))
                         (Var (example_tensor_value ''b'' [4, 5]))))"
  by (simp add: two_reshapes_matmul_reshape_rule_def template_defs matcher_defs example_defs
      guard_defs)


lemma example_gemm_alpha_2_not_rewritten:
  "try_rewrite (example_gemm_graph 2) gemm_to_matmul_add_rewrite_rule example_anchor = Inr None"
  by (simp add: gemm_to_matmul_add_rewrite_rule_def template_defs matcher_defs example_defs)

text \<open>
  Scenario A under the rule set: at the anchor of the chain with one Reshape the first
  rule does not match, and the second rule replaces the chain by a single MatMul of \<open>a\<close>
  and \<open>b\<close>.
\<close>

lemma example_one_reshape_chain_collapses:
  "apply_first_rule example_one_reshape_graph rules example_anchor
     = Inr (Some (''one_reshape_matmul_reshape_rule'',
                  MatMul (Var (example_tensor_value ''a'' [2, 3, 4]))
                         (Var (example_tensor_value ''b'' [4, 5]))))"
  by (simp add: rules_def two_reshapes_matmul_reshape_rule_def one_reshape_matmul_reshape_rule_def
      template_defs matcher_defs example_defs guard_defs)


lemma try_rewrite_rejected:
  assumes "match_at G (target_pattern rule) anchor = Some bindings"
    and "condition rule bindings = Inr False"
  shows "try_rewrite G rule anchor = Inr None"
  using assms by (simp add: try_rewrite_def bind_err_simps)

lemma match_binds_placeholders:
  "match_value G t v st = Some st1 \<Longrightarrow>
     set_template t \<subseteq> dom (fst st1) \<and> fst st \<subseteq>\<^sub>m fst st1"
  "match_values G ts vs st = Some st2 \<Longrightarrow>
     (\<Union>t\<in>set ts. set_template t) \<subseteq> dom (fst st2) \<and> fst st \<subseteq>\<^sub>m fst st2"
proof (induction G t v st and G ts vs st arbitrary: st1 and st2
    rule: match_value_match_values.induct)
  case (1 G x v bindings matched)
  then show ?case
    by (auto simp add: map_le_def split: option.splits if_splits)
next
  case (2 G domain op_type args literals v bindings matched)
  then show ?case
    by (auto split: option.splits if_splits)
next
  case (4 G t ts v vs state)
  from "4.prems" obtain state1 where
      a: "match_value G t v state = Some state1"
      and b: "match_values G ts vs state1 = Some st2"
    by (auto split: option.splits)
  from "4.IH"(1)[OF a] have a1: "set_template t \<subseteq> dom (fst state1)"
    and a2: "fst state \<subseteq>\<^sub>m fst state1" by simp_all
  from "4.IH"(2)[OF a b] have b1: "(\<Union>t\<in>set ts. set_template t) \<subseteq> dom (fst st2)"
    and b2: "fst state1 \<subseteq>\<^sub>m fst st2" by simp_all
  from a1 b2 have "set_template t \<subseteq> dom (fst st2)"
    using map_le_implies_dom_le by blast
  with b1 a2 b2 show ?case
    by (auto intro: map_le_trans)
qed simp_all

lemma match_at_binds_placeholders:
  assumes "match_at G pattern anchor = Some bindings"
  shows "set_template pattern \<subseteq> dom bindings"
proof (cases pattern)
  case (Var x)
  with assms show ?thesis by (simp add: match_at_def)
next
  case (OpCall domain op_type args literals)
  with assms obtain matched where
      "match_values G args (gn_inputs anchor) (Map.empty, [anchor]) = Some (bindings, matched)"
    by (auto simp add: match_at_def split: if_splits option.splits)
  from match_binds_placeholders(2)[OF this] OpCall show ?thesis by simp
qed

lemma bound_values_of_match:
  assumes "match_at G pattern anchor = Some bindings"
    and "set names \<subseteq> set_template pattern"
  shows "bound_values bindings names = Some (map (\<lambda>x. Var (the (bindings x))) names)"
proof -
  from match_at_binds_placeholders[OF assms(1)] assms(2) have "set names \<subseteq> dom bindings"
    by blast
  then show ?thesis
    by (auto simp add: bound_values_def list_all_iff)
qed

lemma try_rewrite_accepted:
  assumes "match_at G (target_pattern rule) anchor = Some bindings"
    and "condition rule bindings = Inr True"
    and "set (placeholders rule) \<subseteq> set_template (target_pattern rule)"
    and "replacement rule (map (\<lambda>x. Var (the (bindings x))) (placeholders rule)) = Some new"
  shows "try_rewrite G rule anchor = Inr (Some new)"
  using assms bound_values_of_match[OF assms(1) assms(3)]
  by (simp add: try_rewrite_def bind_err_simps)

lemma try_two_reshapes_accepted:
  assumes "match_at G (target_pattern two_reshapes_matmul_reshape_rule) anchor = Some bindings"
    and "check_if_need_reshape bindings = Inr True"
  shows "try_rewrite G two_reshapes_matmul_reshape_rule anchor =
           Inr (Some (MatMul (Var (the (bindings ''input_a''))) (Var (the (bindings ''input_b'')))))"
  by (rule try_rewrite_accepted[OF assms(1)])
     (simp_all add: assms(2) two_reshapes_matmul_reshape_rule_def template_defs)

lemma try_one_reshape_accepted:
  assumes "match_at G (target_pattern one_reshape_matmul_reshape_rule) anchor = Some bindings"
    and "check_if_need_reshape bindings = Inr True"
  shows "try_rewrite G one_reshape_matmul_reshape_rule anchor =
           Inr (Some (MatMul (Var (the (bindings ''input_a''))) (Var (the (bindings ''input_b'')))))"
  by (rule try_rewrite_accepted[OF assms(1)])
     (simp_all add: assms(2) one_reshape_matmul_reshape_rule_def template_defs)

lemma example_gemm_chain_guard:
  "check_if_need_reshape
     [''input_a'' \<mapsto> example_tensor_value ''a'' [2, 3, 4],
      ''shape_a'' \<mapsto> example_shape_constant ''shape_a'' [6, 4],
      ''input_b'' \<mapsto> example_tensor_value ''b'' [4, 5],
      ''input_c'' \<mapsto> example_tensor_value ''c'' [5],
      ''shape_c'' \<mapsto> example_shape_constant ''shape_c'' [2, 3, 5]] = Inr True"
  by (simp add: example_defs guard_defs)



lemma example_larger_pattern_matches_accepted:
  "match_at (example_two_reshapes_graph [4, 5]) (target_pattern two_reshapes_matmul_reshape_rule)
     example_anchor =
   Some [''input_a'' \<mapsto> example_tensor_value ''a'' [2, 3, 4],
         ''shape_a'' \<mapsto> example_shape_constant ''shape_a'' [6, 4],
         ''input_b'' \<mapsto> example_tensor_value ''b'' [4, 5],
         ''shape_b'' \<mapsto> example_shape_constant ''shape_b'' [4, 5],
         ''shape_c'' \<mapsto> example_shape_constant ''shape_c'' [2, 3, 5]]"
  by (simp add: two_reshapes_matmul_reshape_rule_def template_defs matcher_defs example_defs)

lemma example_guard_accepts:
  "check_if_need_reshape
     [''input_a'' \<mapsto> example_tensor_value ''a'' [2, 3, 4],
      ''shape_a'' \<mapsto> example_shape_constant ''shape_a'' [6, 4],
      ''input_b'' \<mapsto> example_tensor_value ''b'' [4, 5],
      ''shape_b'' \<mapsto> example_shape_constant ''shape_b'' [4, 5],
      ''shape_c'' \<mapsto> example_shape_constant ''shape_c'' [2, 3, 5]] = Inr True"
  by (simp add: example_defs guard_defs)

lemma example_guard_rejects:
  "check_if_need_reshape
     [''input_a'' \<mapsto> example_tensor_value ''a'' [2, 3, 4],
      ''shape_a'' \<mapsto> example_shape_constant ''shape_a'' [6, 4],
      ''input_b'' \<mapsto> example_tensor_value ''b'' [5, 4],
      ''shape_b'' \<mapsto> example_shape_constant ''shape_b'' [4, 5],
      ''shape_c'' \<mapsto> example_shape_constant ''shape_c'' [2, 3, 5]] = Inr False"
  by (simp add: example_defs guard_defs)

text \<open>
  Claim C6, as stated, fails. Both patterns match at the anchor of the graph below, in
  which \<open>b\<close> has shape [5,4] and is reshaped to [4,5]. The guard of the larger rule reads the
  shape of \<open>b\<close> and rejects; the smaller rule binds \<open>input_b\<close> to the reshaped value, its guard
  accepts, and the replacement produced is that of the smaller rule.
\<close>

theorem smaller_rule_applies_where_both_patterns_match:
  "match_at (example_two_reshapes_graph [5, 4]) (target_pattern two_reshapes_matmul_reshape_rule)
     example_anchor =
   Some [''input_a'' \<mapsto> example_tensor_value ''a'' [2, 3, 4],
         ''shape_a'' \<mapsto> example_shape_constant ''shape_a'' [6, 4],
         ''input_b'' \<mapsto> example_tensor_value ''b'' [5, 4],
         ''shape_b'' \<mapsto> example_shape_constant ''shape_b'' [4, 5],
         ''shape_c'' \<mapsto> example_shape_constant ''shape_c'' [2, 3, 5]]
   \<and> match_at (example_two_reshapes_graph [5, 4]) (target_pattern one_reshape_matmul_reshape_rule)
     example_anchor =
   Some [''input_a'' \<mapsto> example_tensor_value ''a'' [2, 3, 4],
         ''shape_a'' \<mapsto> example_shape_constant ''shape_a'' [6, 4],
         ''input_b'' \<mapsto> example_tensor_value ''rb'' [4, 5],
         ''shape_c'' \<mapsto> example_shape_constant ''shape_c'' [2, 3, 5]]
   \<and> apply_first_rule (example_two_reshapes_graph [5, 4]) rules example_anchor
     = Inr (Some (''one_reshape_matmul_reshape_rule'',
                  MatMul (Var (example_tensor_value ''a'' [2, 3, 4]))
                         (Var (example_tensor_value ''rb'' [4, 5]))))"
proof (intro conjI)
  show "match_at (example_two_reshapes_graph [5, 4])
     (target_pattern two_reshapes_matmul_reshape_rule) example_anchor =
   Some [''input_a'' \<mapsto> example_tensor_value ''a'' [2, 3, 4],
         ''shape_a'' \<mapsto> example_shape_constant ''shape_a'' [6, 4],
         ''input_b'' \<mapsto> example_tensor_value ''b'' [5, 4],
         ''shape_b'' \<mapsto> example_shape_constant ''shape_b'' [4, 5],
         ''shape_c'' \<mapsto> example_shape_constant ''shape_c'' [2, 3, 5]]"
    by (rule example_larger_pattern_matches)
  show "match_at (example_two_reshapes_graph [5, 4])
     (target_pattern one_reshape_matmul_reshape_rule) example_anchor =
   Some [''input_a'' \<mapsto> example_tensor_value ''a'' [2, 3, 4],
         ''shape_a'' \<mapsto> example_shape_constant ''shape_a'' [6, 4],
         ''input_b'' \<mapsto> example_tensor_value ''rb'' [4, 5],
         ''shape_c'' \<mapsto> example_shape_constant ''shape_c'' [2, 3, 5]]"
    by (rule example_smaller_pattern_matches)
  show "apply_first_rule (example_two_reshapes_graph [5, 4]) rules example_anchor
     = Inr (Some (''one_reshape_matmul_reshape_rule'',
                  MatMul (Var (example_tensor_value ''a'' [2, 3, 4]))
                         (Var (example_tensor_value ''rb'' [4, 5]))))"
    by (simp add: rules_def example_larger_rule_rejected example_smaller_rule_accepted)
       (simp add: one_reshape_matmul_reshape_rule_def)
qed

text \<open>
  Claim C6, amended. The rule set registers the rule of the two-reshape pattern before
  the rule of the one-reshape pattern, and the two-reshape pattern is the one-reshape
  pattern with \<open>Reshape(input_b, shape_b)\<close> in the place of \<open>input_b\<close>. At a node where the
  larger pattern matches and the guard accepts its bindings, the replacement of the larger
  rule is produced, whatever the smaller rule would do. Where the larger pattern does not
  match, or the guard rejects its bindings, the result is that of the smaller rule alone,
  which produces its replacement when its pattern matches and the guard accepts.
\<close>

theorem larger_rule_has_priority:
  "rules = [two_reshapes_matmul_reshape_rule, one_reshape_matmul_reshape_rule]
   \<and> two_reshapes_matmul_reshape_pattern input_a input_b shape_a shape_b shape_c
       = one_reshape_matmul_reshape_pattern input_a (Reshape input_b shape_b) shape_a shape_c
   \<and> (match_at G (target_pattern two_reshapes_matmul_reshape_rule) anchor = Some bindings
        \<and> check_if_need_reshape bindings = Inr True
      \<longrightarrow> apply_first_rule G rules anchor
            = Inr (Some (''two_reshapes_matmul_reshape_rule'',
                         MatMul (Var (the (bindings ''input_a'')))
                                (Var (the (bindings ''input_b''))))))
   \<and> (match_at G (target_pattern two_reshapes_matmul_reshape_rule) anchor = None
        \<or> (match_at G (target_pattern two_reshapes_matmul_reshape_rule) anchor = Some bindings
            \<and> check_if_need_reshape bindings = Inr False)
      \<longrightarrow> apply_first_rule G rules anchor
            = apply_first_rule G [one_reshape_matmul_reshape_rule] anchor)
   \<and> (match_at G (target_pattern one_reshape_matmul_reshape_rule) anchor = Some smaller
        \<and> check_if_need_reshape smaller = Inr True
      \<longrightarrow> apply_first_rule G [one_reshape_matmul_reshape_rule] anchor
            = Inr (Some (''one_reshape_matmul_reshape_rule'',
                         MatMul (Var (the (smaller ''input_a'')))
                                (Var (the (smaller ''input_b''))))))"
proof (intro conjI impI)
  show "rules = [two_reshapes_matmul_reshape_rule, one_reshape_matmul_reshape_rule]"
    by (simp add: rules_def)
  show "two_reshapes_matmul_reshape_pattern input_a input_b shape_a shape_b shape_c
       = one_reshape_matmul_reshape_pattern input_a (Reshape input_b shape_b) shape_a shape_c"
    by (simp add: two_reshapes_matmul_reshape_pattern_def one_reshape_matmul_reshape_pattern_def)
next
  assume "match_at G (target_pattern two_reshapes_matmul_reshape_rule) anchor = Some bindings
        \<and> check_if_need_reshape bindings = Inr True"
  then have "try_rewrite G two_reshapes_matmul_reshape_rule anchor =
           Inr (Some (MatMul (Var (the (bindings ''input_a''))) (Var (the (bindings ''input_b'')))))"
    by (simp add: try_two_reshapes_accepted)
  then show "apply_first_rule G rules anchor
            = Inr (Some (''two_reshapes_matmul_reshape_rule'',
                         MatMul (Var (the (bindings ''input_a'')))
                                (Var (the (bindings ''input_b'')))))"
    by (simp add: rules_def) (simp add: two_reshapes_matmul_reshape_rule_def)
next
  assume "match_at G (target_pattern two_reshapes_matmul_reshape_rule) anchor = None
        \<or> (match_at G (target_pattern two_reshapes_matmul_reshape_rule) anchor = Some bindings
            \<and> check_if_need_reshape bindings = Inr False)"
  then have "try_rewrite G two_reshapes_matmul_reshape_rule anchor = Inr None"
  proof
    assume "match_at G (target_pattern two_reshapes_matmul_reshape_rule) anchor = None"
    then show ?thesis by (simp add: try_rewrite_def)
  next
    assume "match_at G (target_pattern two_reshapes_matmul_reshape_rule) anchor = Some bindings
            \<and> check_if_need_reshape bindings = Inr False"
    then show ?thesis
      by (intro try_rewrite_rejected[of _ _ _ bindings])
         (simp_all add: two_reshapes_matmul_reshape_rule_def)
  qed
  then show "apply_first_rule G rules anchor
            = apply_first_rule G [one_reshape_matmul_reshape_rule] anchor"
    by (simp add: rules_def)
next
  assume "match_at G (target_pattern one_reshape_matmul_reshape_rule) anchor = Some smaller
        \<and> check_if_need_reshape smaller = Inr True"
  then have "try_rewrite G one_reshape_matmul_reshape_rule anchor =
           Inr (Some (MatMul (Var (the (smaller ''input_a''))) (Var (the (smaller ''input_b'')))))"
    by (simp add: try_one_reshape_accepted)
  then show "apply_first_rule G [one_reshape_matmul_reshape_rule] anchor
            = Inr (Some (''one_reshape_matmul_reshape_rule'',
                         MatMul (Var (the (smaller ''input_a'')))
                                (Var (the (smaller ''input_b'')))))"
    by simp (simp add: one_reshape_matmul_reshape_rule_def)
qed

theorem larger_rule_has_priority_witness:
  "match_at (example_two_reshapes_graph [4, 5]) (target_pattern two_reshapes_matmul_reshape_rule)
     example_anchor =
   Some [''input_a'' \<mapsto> example_tensor_value ''a'' [2, 3, 4],
         ''shape_a'' \<mapsto> example_shape_constant ''shape_a'' [6, 4],
         ''input_b'' \<mapsto> example_tensor_value ''b'' [4, 5],
         ''shape_b'' \<mapsto> example_shape_constant ''shape_b'' [4, 5],
         ''shape_c'' \<mapsto> example_shape_constant ''shape_c'' [2, 3, 5]]
   \<and> check_if_need_reshape
     [''input_a'' \<mapsto> example_tensor_value ''a'' [2, 3, 4],
      ''shape_a'' \<mapsto> example_shape_constant ''shape_a'' [6, 4],
      ''input_b'' \<mapsto> example_tensor_value ''b'' [4, 5],
      ''shape_b'' \<mapsto> example_shape_constant ''shape_b'' [4, 5],
      ''shape_c'' \<mapsto> example_shape_constant ''shape_c'' [2, 3, 5]] = Inr True
   \<and> apply_first_rule (example_two_reshapes_graph [4, 5]) rules example_anchor
     = Inr (Some (''two_reshapes_matmul_reshape_rule'',
                  MatMul (Var (example_tensor_value ''a'' [2, 3, 4]))
                         (Var (example_tensor_value ''b'' [4, 5]))))
   \<and> apply_first_rule (example_two_reshapes_graph [5, 4]) rules example_anchor
     = apply_first_rule (example_two_reshapes_graph [5, 4]) [one_reshape_matmul_reshape_rule]
         example_anchor"
proof (intro conjI)
  let ?b = "[''input_a'' \<mapsto> example_tensor_value ''a'' [2, 3, 4],
         ''shape_a'' \<mapsto> example_shape_constant ''shape_a'' [6, 4],
         ''input_b'' \<mapsto> example_tensor_value ''b'' [4, 5],
         ''shape_b'' \<mapsto> example_shape_constant ''shape_b'' [4, 5],
         ''shape_c'' \<mapsto> example_shape_constant ''shape_c'' [2, 3, 5]]"
  let ?r = "[''input_a'' \<mapsto> example_tensor_value ''a'' [2, 3, 4],
         ''shape_a'' \<mapsto> example_shape_constant ''shape_a'' [6, 4],
         ''input_b'' \<mapsto> example_tensor_value ''b'' [5, 4],
         ''shape_b'' \<mapsto> example_shape_constant ''shape_b'' [4, 5],
         ''shape_c'' \<mapsto> example_shape_constant ''shape_c'' [2, 3, 5]]"
  show m: "match_at (example_two_reshapes_graph [4, 5])
     (target_pattern two_reshapes_matmul_reshape_rule) example_anchor = Some ?b"
    by (rule example_larger_pattern_matches_accepted)
  show g: "check_if_need_reshape ?b = Inr True"
    by (rule example_guard_accepts)
  have "apply_first_rule (example_two_reshapes_graph [4, 5]) rules example_anchor
     = Inr (Some (''two_reshapes_matmul_reshape_rule'',
                  MatMul (Var (the (?b ''input_a''))) (Var (the (?b ''input_b'')))))"
    by (rule larger_rule_has_priority[THEN conjunct2, THEN conjunct2, THEN conjunct1, THEN mp])
       (rule conjI[OF m g])
  then show "apply_first_rule (example_two_reshapes_graph [4, 5]) rules example_anchor
     = Inr (Some (''two_reshapes_matmul_reshape_rule'',
                  MatMul (Var (example_tensor_value ''a'' [2, 3, 4]))
                         (Var (example_tensor_value ''b'' [4, 5]))))"
    by simp
  show "apply_first_rule (example_two_reshapes_graph [5, 4]) rules example_anchor
     = apply_first_rule (example_two_reshapes_graph [5, 4]) [one_reshape_matmul_reshape_rule]
         example_anchor"
    by (rule larger_rule_has_priority[THEN conjunct2, THEN conjunct2, THEN conjunct2,
          THEN conjunct1, THEN mp])
       (rule disjI2, rule conjI[OF example_larger_pattern_matches example_guard_rejects])
qed

end
